theory Spec2Isabelle
  imports Complex_Main
begin

section \<open>Checkout, order lifecycle and the simulated payment gateway\<close>

text \<open>
  A shallow embedding of \<^verbatim>\<open>backend/checkout_service.py\<close> and
  \<^verbatim>\<open>backend/payment_gateway.py\<close>, over the tables of \<^verbatim>\<open>backend/db.py\<close>.

  Conventions of the embedding.
  \<^item> A table is the list of its rows, in the order a query returns them; a row is a
    record holding the columns the two services read or write. Field names carry the
    table's initial (\<open>o_payment_status\<close> is \<open>Order.payment_status\<close>).
  \<^item> Status columns are strings, as in the source: the code compares them with string
    literals, and which literal it uses matters.
  \<^item> A Python \<open>float\<close> is the rational number the double denotes. Every float
    operation rounds its exact result to the nearest double, ties to even (\<open>fl\<close>), and
    a decimal literal of the source (\<open>0.10\<close>, \<open>0.08875\<close>) is the double nearest to
    it. The exponent is not bounded: the amounts of this program (two-decimal prices,
    32-bit quantities, a handful of operations) stay far from overflow and from the
    subnormal numbers.
  \<^item> A \<open>DECIMAL(10, 2)\<close> column holds a decimal with two places. What the storage
    makes of a float written to such a column is read from the environment
    (\<open>decimal_10_2\<close>); a value outside the column's range, like every fault of the
    storage, is outside the model.
  \<^item> A raised exception is the \<open>Inl\<close> of a sum type.
  \<^item> The clock, the UUID generator and the random number generator are read from an
    explicit environment record, one per service call.
  \<^item> The SQLAlchemy session is a pair of stores: the rows as persisted, and the rows as
    the session sees them. \<open>commit\<close> persists the session's view, \<open>rollback\<close>
    discards it. The session is made with \<open>expire_on_commit\<close> at its default, so a
    commit expires every object: the next read of an attribute loads the row again by its
    key, and raises \<open>ObjectDeletedError\<close> when the row is gone.
\<close>

subsection \<open>Tables (db.py)\<close>

record User =
  u_id :: int
  u_loyalty_score :: int

record Product =
  p_id :: int
  p_product_name :: string
  p_price :: rat
  p_stock :: int

record Cart =
  c_id :: int
  c_user_id :: int
  c_product_id :: int
  c_quantity :: int

record Order =
  o_id :: int
  o_order_number :: string
  o_user_id :: int
  o_total_amount :: rat
  o_tax_amount :: rat
  o_shipping_amount :: rat
  o_discount_amount :: rat
  o_final_amount :: rat
  o_payment_status :: string
  o_payment_method :: string
  o_transaction_id :: "string option"
  o_shipping_address :: string
  o_billing_address :: string
  o_order_status :: string
  o_notes :: "string option"

record OrderItem =
  oi_order_id :: int
  oi_product_id :: int
  oi_product_name :: string
  oi_quantity :: int
  oi_unit_price :: rat
  oi_total_price :: rat

record store =
  users :: "User list"
  products :: "Product list"
  carts :: "Cart list"
  orders :: "Order list"
  order_items :: "OrderItem list"

record db =
  persisted :: store
  session :: store

definition commit :: "db \<Rightarrow> db" where
  "commit d = d\<lparr>persisted := session d\<rparr>"

definition rollback :: "db \<Rightarrow> db" where
  "rollback d = d\<lparr>session := persisted d\<rparr>"

subsection \<open>Floating point\<close>

text \<open>\<open>ilog2 n\<close> is the position of the leading bit of a positive integer, \<open>pow2 k\<close>
  the power of two with an integer exponent.\<close>

function ilog2 :: "int \<Rightarrow> int" where
  "ilog2 n = (if n < 2 then 0 else 1 + ilog2 (n div 2))"
  by pat_completeness auto
termination
  by (relation "measure nat") auto

function pow2 :: "int \<Rightarrow> rat" where
  "pow2 k = (if k = 0 then 1 else if 0 < k then 2 * pow2 (k - 1) else pow2 (k + 1) / 2)"
  by pat_completeness auto
termination
  by (relation "measure (\<lambda>k. nat \<bar>k\<bar>)") auto

declare ilog2.simps [simp del] pow2.simps [simp del]

text \<open>The nearest integer, a tie going to the even one.\<close>

definition round_half_even :: "rat \<Rightarrow> int" where
  "round_half_even y =
     (let f = \<lfloor>y\<rfloor>; r = y - of_int f
      in if r < 1 / 2 then f else if 1 / 2 < r then f + 1
         else if even f then f else f + 1)"

text \<open>The binary exponent of a number other than zero: the \<open>k\<close> with
  \<open>2^k \<le> |x| < 2^(k+1)\<close>.\<close>

definition float_exponent :: "rat \<Rightarrow> int" where
  "float_exponent x =
     (let (p, q) = quotient_of \<bar>x\<bar>;
          k = ilog2 p - ilog2 q
      in if of_int p < of_int q * pow2 k then k - 1 else k)"

text \<open>Rounding to a double: 53 significant bits, to nearest, ties to even.\<close>

definition fl :: "rat \<Rightarrow> rat" where
  "fl x =
     (if x = 0 then 0
      else let ulp = pow2 (float_exponent x - 52)
           in of_int (round_half_even (x / ulp)) * ulp)"

text \<open>Python's \<open>*\<close>, \<open>+\<close>, \<open>-\<close> and \<open>/\<close> on floats, and the conversion of an
  \<open>int\<close> operand to a float, which rounds like every other conversion (and is exact
  below \<open>2^53\<close>).\<close>

definition float_of_int :: "int \<Rightarrow> rat" where
  "float_of_int n = fl (of_int n)"

definition fmul :: "rat \<Rightarrow> rat \<Rightarrow> rat" where
  "fmul x y = fl (x * y)"

definition fadd :: "rat \<Rightarrow> rat \<Rightarrow> rat" where
  "fadd x y = fl (x + y)"

definition fsub :: "rat \<Rightarrow> rat \<Rightarrow> rat" where
  "fsub x y = fl (x - y)"

definition fdiv :: "rat \<Rightarrow> rat \<Rightarrow> rat" where
  "fdiv x y = fl (x / y)"

subsection \<open>Exceptions\<close>

text \<open>The exceptions the two services raise or let through: the service's own
  \<open>CheckoutError\<close>, the \<open>TypeError\<close> and \<open>ValueError\<close> of the builtin
  \<open>int\<close>, and the session's \<open>ObjectDeletedError\<close>.\<close>

datatype error =
  CheckoutError string
  | TypeError string
  | ValueError
  | ObjectDeletedError string

text \<open>\<open>str(e)\<close> of an exception: its message. A \<open>ValueError\<close> never reaches a
  place that prints it (the card check catches it), so it carries none here.\<close>

fun error_str :: "error \<Rightarrow> string" where
  "error_str (CheckoutError m) = m"
| "error_str (TypeError m) = m"
| "error_str ValueError = []"
| "error_str (ObjectDeletedError m) = m"

subsection \<open>Cart validation results and order totals\<close>

record valid_item =
  vi_cart_item :: Cart
  vi_product :: Product
  vi_item_total :: rat

record invalid_item =
  ii_cart_item_id :: int
  ii_product_name :: "string option"
  ii_available_stock :: "int option"
  ii_requested_quantity :: "int option"
  ii_reason :: string

record validation_result =
  valid_items :: "valid_item list"
  invalid_items :: "invalid_item list"
  total_amount :: rat
  item_count :: int

record totals =
  subtotal :: rat
  discount_amount :: rat
  discount_rate :: rat
  tax_amount :: rat
  shipping_amount :: rat
  final_amount :: rat

text \<open>\<^verbatim>\<open>CheckoutService.calculate_order_totals\<close>. The two addresses are arguments of
  the source function that it never reads.\<close>

definition calculate_order_totals ::
  "validation_result \<Rightarrow> User \<Rightarrow> string \<Rightarrow> string \<Rightarrow> totals" where
  "calculate_order_totals cart_validation user shipping_address billing_address =
     (let subtotal = total_amount cart_validation;
          loyalty_score = u_loyalty_score user;
          discount_rate = (if loyalty_score > 1000 then fl (10 / 100)
                           else if loyalty_score > 500 then fl (5 / 100) else 0);
          discount_amount = fmul subtotal discount_rate;
          tax_rate = fl (8875 / 100000);
          taxable_amount = fsub subtotal discount_amount;
          tax_amount = fmul taxable_amount tax_rate;
          shipping_amount = (if taxable_amount > 1000 then 0 else 199);
          final_amount = fadd (fadd taxable_amount tax_amount) shipping_amount
      in \<lparr>subtotal = subtotal,
          discount_amount = discount_amount,
          discount_rate = discount_rate,
          tax_amount = tax_amount,
          shipping_amount = shipping_amount,
          final_amount = final_amount\<rparr>)"

text \<open>The rounding the specification's testable property names, Python's
  \<open>round(x, 2)\<close> of a float: the nearest multiple of one hundredth, a tie going to the
  even one, as a double. It follows the specification's words; the source never calls
  it.\<close>

definition spec_round2 :: "rat \<Rightarrow> rat" where
  "spec_round2 x = fl (of_int (round_half_even (x * 100)) / 100)"

subsection \<open>The environment of a call\<close>

text \<open>What a call reads from outside the program: the date stamp
  \<^verbatim>\<open>datetime.now().strftime('%Y%m%d')\<close>, the year and month of \<^verbatim>\<open>datetime.now()\<close>,
  the eight upper-case characters cut from a fresh UUID (one for an order number, one for
  a transaction id), the draws of \<^verbatim>\<open>random.random()\<close> (one for a payment, one for a
  refund), the index \<^verbatim>\<open>random.choice\<close> picks, the rendering of the rupee sign
  followed by an amount with two decimals (the f-string of the refund message), the
  decimal a \<open>DECIMAL(10, 2)\<close> column holds once a float has been written to it, and
  the \<open>repr\<close> of the object of a class and key (it holds the object's address),
  which the message of an \<open>ObjectDeletedError\<close> quotes.\<close>

record env =
  today :: string
  now_year :: int
  now_month :: int
  order_uuid8 :: string
  txn_uuid8 :: string
  random_value :: rat
  failure_choice :: nat
  refund_random :: rat
  fmt_rupees :: "rat \<Rightarrow> string"
  decimal_10_2 :: "rat \<Rightarrow> rat"
  object_repr :: "string \<Rightarrow> int \<Rightarrow> string"

subsection \<open>Python values and builtins used by the card check\<close>

text \<open>The value of a field of the \<open>card_details\<close> dictionary, which arrives as JSON: a
  string, an integer or null. Characters are ASCII.\<close>

datatype pyval = PStr string | PInt int | PNone

type_synonym card_details = "(string \<times> pyval) list"

definition is_digit_char :: "char \<Rightarrow> bool" where
  "is_digit_char c = (c \<in> set ''0123456789'')"

definition isdigit :: "string \<Rightarrow> bool" where
  "isdigit s = (s \<noteq> [] \<and> list_all is_digit_char s)"

definition digit_char :: "int \<Rightarrow> char" where
  "digit_char k = ''0123456789'' ! nat (k mod 10)"

text \<open>The decimal digits of an integer that is not negative.\<close>

function str_digits :: "int \<Rightarrow> string" where
  "str_digits n =
     (if n < 10 then [digit_char n] else str_digits (n div 10) @ [digit_char n])"
  by pat_completeness auto
termination
  by (relation "measure nat") auto

definition py_str :: "pyval \<Rightarrow> string" where
  "py_str v =
     (case v of
        PStr s \<Rightarrow> s
      | PInt n \<Rightarrow> (if n < 0 then ''-'' @ str_digits (- n) else str_digits n)
      | PNone \<Rightarrow> ''None'')"

definition is_space_char :: "char \<Rightarrow> bool" where
  "is_space_char c = (of_char c \<in> set [9, 10, 11, 12, 13, 32 :: nat])"

definition strip :: "string \<Rightarrow> string" where
  "strip s = rev (dropWhile is_space_char (rev (dropWhile is_space_char s)))"

text \<open>The digits of an integer literal: decimal digits, any two of them separated by at
  most one underscore.\<close>

fun literal_digits :: "string \<Rightarrow> bool" where
  "literal_digits [] = False"
| "literal_digits [c] = is_digit_char c"
| "literal_digits (c # u # cs) =
     (is_digit_char c \<and>
      (if u = CHR ''_'' then literal_digits cs else literal_digits (u # cs)))"

definition digits_value :: "string \<Rightarrow> int" where
  "digits_value s =
     foldl (\<lambda>acc c. if c = CHR ''_'' then acc else 10 * acc + (int (of_char c) - 48)) 0 s"

text \<open>\<^verbatim>\<open>int(s)\<close> for a string: surrounding whitespace is dropped, one sign is allowed,
  anything else that is not an integer literal raises \<open>ValueError\<close>.\<close>

definition int_of_string :: "string \<Rightarrow> error + int" where
  "int_of_string s =
     (case strip s of
        [] \<Rightarrow> Inl ValueError
      | c # cs \<Rightarrow>
          if c = CHR ''-'' then
            (if literal_digits cs then Inr (- digits_value cs) else Inl ValueError)
          else if c = CHR ''+'' then
            (if literal_digits cs then Inr (digits_value cs) else Inl ValueError)
          else if literal_digits (c # cs) then Inr (digits_value (c # cs))
          else Inl ValueError)"

definition py_int :: "pyval \<Rightarrow> error + int" where
  "py_int v =
     (case v of
        PInt n \<Rightarrow> Inr n
      | PStr s \<Rightarrow> int_of_string s
      | PNone \<Rightarrow>
          Inl (TypeError
            (''int() argument must be a string, a bytes-like object or a real number, not ''
               @ [CHR 0x27] @ ''NoneType'' @ [CHR 0x27])))"

subsection \<open>The payment gateway (payment_gateway.py)\<close>

datatype PaymentStatus = PENDING | SUCCESS | FAILED | REFUNDED | CANCELLED

fun status_value :: "PaymentStatus \<Rightarrow> string" where
  "status_value PENDING = ''pending''"
| "status_value SUCCESS = ''success''"
| "status_value FAILED = ''failed''"
| "status_value REFUNDED = ''refunded''"
| "status_value CANCELLED = ''cancelled''"

text \<open>\<^verbatim>\<open>get_supported_payment_methods\<close>: the keys of the dictionary it returns. Both
  services only test a method for membership; the display data of each entry is left
  out.\<close>

definition get_supported_payment_methods :: "string list" where
  "get_supported_payment_methods =
     [''credit_card'', ''debit_card'', ''net_banking'', ''upi'', ''wallet'']"

definition required_fields :: "string list" where
  "required_fields = [''card_number'', ''expiry_month'', ''expiry_year'', ''cvv'']"

text \<open>\<open>d[k]\<close> for a key the caller has checked to be present.\<close>

definition field :: "card_details \<Rightarrow> string \<Rightarrow> pyval" where
  "field card_details k = (case map_of card_details k of Some v \<Rightarrow> v | None \<Rightarrow> PNone)"

text \<open>The \<open>try\<close> block of \<^verbatim>\<open>validate_card_details\<close>: \<open>Inr None\<close> when the expiry
  date passes, \<open>Inr (Some m)\<close> when the block returns the rejection \<open>m\<close>, \<open>Inl\<close> for
  an exception raised inside it.\<close>

definition check_expiry :: "env \<Rightarrow> card_details \<Rightarrow> error + string option" where
  "check_expiry e card_details =
     (case py_int (field card_details ''expiry_month'') of
        Inl err \<Rightarrow> Inl err
      | Inr expiry_month \<Rightarrow>
          (case py_int (field card_details ''expiry_year'') of
             Inl err \<Rightarrow> Inl err
           | Inr expiry_year \<Rightarrow>
               if \<not> (1 \<le> expiry_month \<and> expiry_month \<le> 12) then
                 Inr (Some ''Invalid expiry month'')
               else if expiry_year < now_year e \<or>
                       (expiry_year = now_year e \<and> expiry_month < now_month e) then
                 Inr (Some ''Card has expired'')
               else Inr None))"

definition validate_card_details :: "env \<Rightarrow> card_details \<Rightarrow> error + (bool \<times> string)" where
  "validate_card_details e card_details =
     (case find (\<lambda>f. map_of card_details f = None) required_fields of
        Some f \<Rightarrow> Inr (False, ''Missing required field: '' @ f)
      | None \<Rightarrow>
          let card_number = py_str (field card_details ''card_number'') in
          if \<not> isdigit card_number \<or> length card_number \<noteq> 16 then
            Inr (False, ''Invalid card number format'')
          else
            (case check_expiry e card_details of
               Inl ValueError \<Rightarrow> Inr (False, ''Invalid expiry date format'')
             | Inl err \<Rightarrow> Inl err
             | Inr (Some m) \<Rightarrow> Inr (False, m)
             | Inr None \<Rightarrow>
                 let cvv = py_str (field card_details ''cvv'') in
                 if \<not> isdigit cvv \<or> \<not> (3 \<le> length cvv \<and> length cvv \<le> 4) then
                   Inr (False, ''Invalid CVV format'')
                 else Inr (True, ''Card details valid'')))"

definition failure_reasons :: "string list" where
  "failure_reasons =
     [''Insufficient funds'', ''Card declined by bank'', ''Invalid card details'',
      ''Security verification failed'', ''Bank system temporarily unavailable'']"

definition new_transaction_id :: "env \<Rightarrow> string" where
  "new_transaction_id e = ''TXN-'' @ today e @ ''-'' @ txn_uuid8 e"

text \<open>The rates \<^verbatim>\<open>__init__\<close> sets, the doubles \<open>0.85\<close> and \<open>0.10\<close>.\<close>

definition success_rate :: rat where
  "success_rate = fl (85 / 100)"

definition failure_rate :: rat where
  "failure_rate = fl (10 / 100)"

text \<open>The tail of \<^verbatim>\<open>PaymentGateway.process_payment\<close>, after its checks: the
  transaction id is generated first, then the outcome is drawn.\<close>

definition payment_outcome :: "env \<Rightarrow> PaymentStatus \<times> string \<times> string option" where
  "payment_outcome e =
     (let transaction_id = new_transaction_id e
      in if random_value e < success_rate then
           (SUCCESS, ''Payment successful'', Some transaction_id)
         else if random_value e < fadd success_rate failure_rate then
           (FAILED, failure_reasons ! (failure_choice e mod length failure_reasons),
            Some transaction_id)
         else (FAILED, ''Payment processing timeout'', Some transaction_id))"

text \<open>Python's truth value of an optional dictionary: \<open>None\<close> and the empty
  dictionary are false.\<close>

definition given :: "card_details option \<Rightarrow> bool" where
  "given card_details = (case card_details of None \<Rightarrow> False | Some kvs \<Rightarrow> kvs \<noteq> [])"

definition card_methods :: "string list" where
  "card_methods = [''credit_card'', ''debit_card'']"

text \<open>\<^verbatim>\<open>PaymentGateway.process_payment\<close>.\<close>

definition gateway_process_payment ::
  "env \<Rightarrow> rat \<Rightarrow> string \<Rightarrow> card_details option
     \<Rightarrow> error + (PaymentStatus \<times> string \<times> string option)" where
  "gateway_process_payment e amount payment_method card_details =
     (if amount \<le> 0 then Inr (FAILED, ''Invalid payment amount'', None)
      else if payment_method \<notin> set get_supported_payment_methods then
        Inr (FAILED, ''Unsupported payment method: '' @ payment_method, None)
      else if payment_method \<in> set card_methods \<and> given card_details then
        (case validate_card_details e (the card_details) of
           Inl err \<Rightarrow> Inl err
         | Inr (is_valid, message) \<Rightarrow>
             if \<not> is_valid then Inr (FAILED, ''Invalid card details: '' @ message, None)
             else Inr (payment_outcome e))
      else Inr (payment_outcome e))"

text \<open>\<^verbatim>\<open>PaymentGateway.refund_payment\<close>.\<close>

definition refund_payment :: "env \<Rightarrow> string option \<Rightarrow> rat \<Rightarrow> PaymentStatus \<times> string" where
  "refund_payment e transaction_id amount =
     (if (case transaction_id of
            None \<Rightarrow> True
          | Some t \<Rightarrow> t = [] \<or> take 4 t \<noteq> ''TXN-'') then
        (FAILED, ''Invalid transaction ID'')
      else if amount \<le> 0 then (FAILED, ''Invalid refund amount'')
      else if refund_random e < fl (95 / 100) then
        (REFUNDED, ''Refund of '' @ fmt_rupees e amount @ '' processed successfully'')
      else (FAILED, ''Refund processing failed''))"

subsection \<open>The checkout service (checkout_service.py)\<close>

text \<open>One turn of the loop of \<^verbatim>\<open>validate_cart_items\<close>: the product is looked up by
  its key in the session; a missing product and a short stock each end the turn with an
  entry in \<open>invalid_items\<close> (the \<open>continue\<close> of the source).\<close>

definition validate_step :: "store \<Rightarrow> validation_result \<Rightarrow> Cart \<Rightarrow> validation_result" where
  "validate_step st validation_result cart_item =
     (case find (\<lambda>p. p_id p = c_product_id cart_item) (products st) of
        None \<Rightarrow>
          validation_result\<lparr>invalid_items := invalid_items validation_result @
            [\<lparr>ii_cart_item_id = c_id cart_item,
              ii_product_name = None,
              ii_available_stock = None,
              ii_requested_quantity = None,
              ii_reason = ''Product not found''\<rparr>]\<rparr>
      | Some product \<Rightarrow>
          if p_stock product < c_quantity cart_item then
            validation_result\<lparr>invalid_items := invalid_items validation_result @
              [\<lparr>ii_cart_item_id = c_id cart_item,
                ii_product_name = Some (p_product_name product),
                ii_available_stock = Some (p_stock product),
                ii_requested_quantity = Some (c_quantity cart_item),
                ii_reason = ''Insufficient stock''\<rparr>]\<rparr>
          else
            let item_total =
                  fmul (fl (p_price product)) (float_of_int (c_quantity cart_item)) in
            validation_result\<lparr>
              valid_items := valid_items validation_result @
                [\<lparr>vi_cart_item = cart_item, vi_product = product,
                  vi_item_total = item_total\<rparr>],
              total_amount := fadd (total_amount validation_result) item_total,
              item_count := item_count validation_result + c_quantity cart_item\<rparr>)"

fun validate_loop :: "store \<Rightarrow> validation_result \<Rightarrow> Cart list \<Rightarrow> validation_result" where
  "validate_loop st validation_result [] = validation_result"
| "validate_loop st validation_result (cart_item # cart_items) =
     validate_loop st (validate_step st validation_result cart_item) cart_items"

text \<open>\<^verbatim>\<open>CheckoutService.validate_cart_items\<close>.\<close>

definition validate_cart_items :: "db \<Rightarrow> int \<Rightarrow> error + validation_result" where
  "validate_cart_items d user_id =
     (let cart_items = filter (\<lambda>c. c_user_id c = user_id) (carts (session d)) in
      if cart_items = [] then Inl (CheckoutError ''Cart is empty'')
      else
        Inr (validate_loop (session d)
               \<lparr>valid_items = [], invalid_items = [], total_amount = 0, item_count = 0\<rparr>
               cart_items))"

text \<open>The key the storage gives a new order row when the session is flushed: a key no
  order row of the session uses, here one above the largest in use.\<close>

definition new_order_id :: "Order list \<Rightarrow> int" where
  "new_order_id os = foldr max (map o_id os) 0 + 1"

text \<open>\<open>int(x)\<close> for a float: truncation towards zero.\<close>

definition int_of_float :: "rat \<Rightarrow> int" where
  "int_of_float x = (if 0 \<le> x then \<lfloor>x\<rfloor> else \<lceil>x\<rceil>)"

text \<open>The rows the storage holds for an order and an order item whose amounts were
  written as floats: each amount column is \<open>DECIMAL(10, 2)\<close>. The session's objects
  are expired by the commit that writes them, so these are also the values every later
  read of the objects sees.\<close>

definition stored_order :: "env \<Rightarrow> Order \<Rightarrow> Order" where
  "stored_order e order =
     order\<lparr>o_total_amount := decimal_10_2 e (o_total_amount order),
           o_tax_amount := decimal_10_2 e (o_tax_amount order),
           o_shipping_amount := decimal_10_2 e (o_shipping_amount order),
           o_discount_amount := decimal_10_2 e (o_discount_amount order),
           o_final_amount := decimal_10_2 e (o_final_amount order)\<rparr>"

definition stored_item :: "env \<Rightarrow> OrderItem \<Rightarrow> OrderItem" where
  "stored_item e item =
     item\<lparr>oi_unit_price := decimal_10_2 e (oi_unit_price item),
          oi_total_price := decimal_10_2 e (oi_total_price item)\<rparr>"

text \<open>The loop of \<^verbatim>\<open>create_order\<close> over the valid items. \<open>product\<close> is the object the
  validation looked up, and the session holds one object per key: decrementing its stock
  decrements the stock of the session's row with that key.\<close>

fun create_order_items :: "env \<Rightarrow> int \<Rightarrow> store \<Rightarrow> valid_item list \<Rightarrow> store" where
  "create_order_items e order_id st [] = st"
| "create_order_items e order_id st (item_data # rest) =
     (let cart_item = vi_cart_item item_data;
          product = vi_product item_data;
          item_total = vi_item_total item_data;
          order_item = \<lparr>oi_order_id = order_id,
                        oi_product_id = p_id product,
                        oi_product_name = p_product_name product,
                        oi_quantity = c_quantity cart_item,
                        oi_unit_price = fl (p_price product),
                        oi_total_price = item_total\<rparr>;
          st1 = st\<lparr>order_items := order_items st @ [stored_item e order_item]\<rparr>;
          st2 = st1\<lparr>products :=
                  map (\<lambda>p. if p_id p = p_id product
                            then p\<lparr>p_stock := p_stock p - c_quantity cart_item\<rparr> else p)
                    (products st1)\<rparr>
      in create_order_items e order_id st2 rest)"

text \<open>\<^verbatim>\<open>CheckoutService.create_order\<close>: the order row, its items and the stock
  decrements, the loyalty points, then \<open>commit\<close> and \<open>refresh\<close>. Nothing reads the
  order's amounts between the constructor and the commit, so the session's row is
  written here as the storage will hold it, and the order returned is the refreshed
  one.\<close>

definition create_order ::
  "env \<Rightarrow> db \<Rightarrow> User \<Rightarrow> validation_result \<Rightarrow> totals \<Rightarrow> string \<Rightarrow> string \<Rightarrow> string
     \<Rightarrow> string option \<Rightarrow> Order \<times> db" where
  "create_order e d user cart_validation tot shipping_address billing_address
      payment_method notes =
     (let order_number = ''LUX-'' @ today e @ ''-'' @ order_uuid8 e;
          order = stored_order e
                  \<lparr>o_id = new_order_id (orders (session d)),
                   o_order_number = order_number,
                   o_user_id = u_id user,
                   o_total_amount = subtotal tot,
                   o_tax_amount = tax_amount tot,
                   o_shipping_amount = shipping_amount tot,
                   o_discount_amount = discount_amount tot,
                   o_final_amount = final_amount tot,
                   o_payment_status = ''pending'',
                   o_payment_method = payment_method,
                   o_transaction_id = None,
                   o_shipping_address = shipping_address,
                   o_billing_address = billing_address,
                   o_order_status = ''processing'',
                   o_notes = notes\<rparr>;
          st1 = (session d)\<lparr>orders := orders (session d) @ [order]\<rparr>;
          st2 = create_order_items e (o_id order) st1 (valid_items cart_validation);
          st3 = st2\<lparr>users :=
                  map (\<lambda>u. if u_id u = u_id user
                            then u\<lparr>u_loyalty_score :=
                                   u_loyalty_score user +
                                     int_of_float (fdiv (final_amount tot) 10)\<rparr>
                            else u)
                    (users st2)\<rparr>
      in (order, commit (d\<lparr>session := st3\<rparr>)))"

record payment_result =
  pr_success :: bool
  pr_status :: string
  pr_message :: string
  pr_transaction_id :: "string option"
  pr_order_id :: int
  pr_order_number :: string

text \<open>Writing to an attribute of an order object writes to the session's row with the
  object's key.\<close>

definition put_order :: "Order \<Rightarrow> store \<Rightarrow> store" where
  "put_order order st =
     st\<lparr>orders := map (\<lambda>row. if o_id row = o_id order then order else row) (orders st)\<rparr>"

text \<open>The body of the \<open>try\<close> of \<^verbatim>\<open>CheckoutService.process_payment\<close>. Each \<open>raise\<close>
  comes before the first write, so an exception leaves the session as it was.\<close>

definition process_payment_try ::
  "env \<Rightarrow> db \<Rightarrow> Order \<Rightarrow> string \<Rightarrow> card_details option
     \<Rightarrow> (error + payment_result) \<times> db" where
  "process_payment_try e d order payment_method card_details =
     (if payment_method \<notin> set get_supported_payment_methods then
        (Inl (CheckoutError (''Unsupported payment method: '' @ payment_method)), d)
      else if payment_method \<in> set card_methods \<and> \<not> given card_details then
        (Inl (CheckoutError ''Card details required for card payments''), d)
      else
        (case (if given card_details then validate_card_details e (the card_details)
               else Inr (True, [])) of
           Inl err \<Rightarrow> (Inl err, d)
         | Inr (is_valid, message) \<Rightarrow>
             if \<not> is_valid then
               (Inl (CheckoutError (''Invalid card details: '' @ message)), d)
             else
               (case gateway_process_payment e (o_final_amount order) payment_method
                        card_details of
                  Inl err \<Rightarrow> (Inl err, d)
                | Inr (payment_status, message, transaction_id) \<Rightarrow>
                    let order1 = order\<lparr>o_payment_status :=
                                   (if payment_status = SUCCESS then ''paid''
                                    else status_value payment_status)\<rparr>;
                        order2 = (if transaction_id \<notin> {None, Some []}
                                  then order1\<lparr>o_transaction_id := transaction_id\<rparr>
                                  else order1);
                        order3 = (if payment_status = SUCCESS
                                  then order2\<lparr>o_order_status := ''confirmed''\<rparr>
                                  else order2);
                        result_message =
                          (if payment_status = SUCCESS then
                             ''Payment successful! Transaction ID: '' @
                               (case transaction_id of Some t \<Rightarrow> t | None \<Rightarrow> ''None'')
                           else if payment_status = FAILED then
                             ''Payment failed: '' @ message
                           else ''Payment '' @ status_value payment_status @ '': '' @ message);
                        d1 = commit (d\<lparr>session := put_order order3 (session d)\<rparr>)
                    in (Inr \<lparr>pr_success = (payment_status = SUCCESS),
                              pr_status = status_value payment_status,
                              pr_message = result_message,
                              pr_transaction_id = transaction_id,
                              pr_order_id = o_id order,
                              pr_order_number = o_order_number order\<rparr>, d1))))"

text \<open>\<^verbatim>\<open>CheckoutService.process_payment\<close>: any exception of the body is raised again
  as a \<open>CheckoutError\<close>.\<close>

definition process_payment ::
  "env \<Rightarrow> db \<Rightarrow> Order \<Rightarrow> string \<Rightarrow> card_details option
     \<Rightarrow> (error + payment_result) \<times> db" where
  "process_payment e d order payment_method card_details =
     (case process_payment_try e d order payment_method card_details of
        (Inl err, d1) \<Rightarrow>
          (Inl (CheckoutError (''Payment processing failed: '' @ error_str err)), d1)
      | (Inr r, d1) \<Rightarrow> (Inr r, d1))"

record checkout_item =
  ci_product_name :: string
  ci_quantity :: int
  ci_price :: rat
  ci_total :: rat

record checkout_completed =
  cc_success :: bool
  cc_order_id :: int
  cc_order_number :: string
  cc_final_amount :: rat
  cc_payment_result :: payment_result
  cc_items :: "checkout_item list"

text \<open>The two shapes of the dictionary \<^verbatim>\<open>complete_checkout\<close> returns: the one built
  after the payment step, and \<open>{'success': False, 'error': .., 'error_type': ..}\<close>.\<close>

datatype checkout_result =
  Completed checkout_completed
  | Failure string string

text \<open>The message of the \<open>ObjectDeletedError\<close> for the object of a class and key.\<close>

definition deleted_message :: "env \<Rightarrow> string \<Rightarrow> int \<Rightarrow> string" where
  "deleted_message e cls k =
     ''Instance '' @ [CHR 0x27] @ object_repr e cls k @ [CHR 0x27] @
       '' has been deleted, or its row is otherwise not present.''"

text \<open>The \<open>items\<close> list of the dictionary \<^verbatim>\<open>complete_checkout\<close> returns. It is built
  after the commits of \<open>create_order\<close> and \<open>process_payment\<close> (and of the cart
  deletion), so the product and the cart line of every item are expired objects: reading
  \<open>product_name\<close> loads the product row again, reading \<open>quantity\<close> loads the cart
  row again, and a row that is gone raises. The bulk \<open>delete()\<close> of the cart rows does
  not touch the expired cart objects the items hold.\<close>

fun checkout_items :: "env \<Rightarrow> store \<Rightarrow> valid_item list \<Rightarrow> error + checkout_item list" where
  "checkout_items e st [] = Inr []"
| "checkout_items e st (item # rest) =
     (case find (\<lambda>p. p_id p = p_id (vi_product item)) (products st) of
        None \<Rightarrow>
          Inl (ObjectDeletedError (deleted_message e ''Product'' (p_id (vi_product item))))
      | Some product \<Rightarrow>
          (case find (\<lambda>c. c_id c = c_id (vi_cart_item item)) (carts st) of
             None \<Rightarrow>
               Inl (ObjectDeletedError (deleted_message e ''Cart'' (c_id (vi_cart_item item))))
           | Some cart_item \<Rightarrow>
               (case checkout_items e st rest of
                  Inl err \<Rightarrow> Inl err
                | Inr items \<Rightarrow>
                    Inr (\<lparr>ci_product_name = p_product_name product,
                          ci_quantity = c_quantity cart_item,
                          ci_price = fl (p_price product),
                          ci_total = vi_item_total item\<rparr> # items))))"

text \<open>The body of the \<open>try\<close> of \<^verbatim>\<open>complete_checkout\<close>, with the session as it is
  when the body ends or raises.\<close>

definition complete_checkout_try ::
  "env \<Rightarrow> db \<Rightarrow> User \<Rightarrow> string \<Rightarrow> string \<Rightarrow> string \<Rightarrow> card_details option
     \<Rightarrow> string option \<Rightarrow> (error + checkout_completed) \<times> db" where
  "complete_checkout_try e d user shipping_address billing_address payment_method
      card_details notes =
     (case validate_cart_items d (u_id user) of
        Inl err \<Rightarrow> (Inl err, d)
      | Inr cart_validation \<Rightarrow>
          if valid_items cart_validation = [] then
            (Inl (CheckoutError ''No valid items in cart''), d)
          else
            let tot = calculate_order_totals cart_validation user shipping_address
                        billing_address;
                (order, d1) = create_order e d user cart_validation tot shipping_address
                                billing_address payment_method notes
            in (case process_payment e d1 order payment_method card_details of
                  (Inl err, d2) \<Rightarrow> (Inl err, d2)
                | (Inr payment_result, d2) \<Rightarrow>
                    let d3 = (if pr_success payment_result then
                                commit (d2\<lparr>session := (session d2)\<lparr>carts :=
                                  filter (\<lambda>c. c_user_id c \<noteq> u_id user)
                                    (carts (session d2))\<rparr>\<rparr>)
                              else d2)
                    in (case checkout_items e (session d3) (valid_items cart_validation) of
                          Inl err \<Rightarrow> (Inl err, d3)
                        | Inr items \<Rightarrow>
                            (Inr \<lparr>cc_success = pr_success payment_result,
                                  cc_order_id = o_id order,
                                  cc_order_number = o_order_number order,
                                  cc_final_amount = final_amount tot,
                                  cc_payment_result = payment_result,
                                  cc_items = items\<rparr>, d3))))"

text \<open>\<^verbatim>\<open>CheckoutService.complete_checkout\<close>: both handlers call \<open>rollback\<close> and
  return the failure dictionary.\<close>

definition complete_checkout ::
  "env \<Rightarrow> db \<Rightarrow> User \<Rightarrow> string \<Rightarrow> string \<Rightarrow> string \<Rightarrow> card_details option
     \<Rightarrow> string option \<Rightarrow> checkout_result \<times> db" where
  "complete_checkout e d user shipping_address billing_address payment_method
      card_details notes =
     (case complete_checkout_try e d user shipping_address billing_address payment_method
             card_details notes of
        (Inr r, d1) \<Rightarrow> (Completed r, d1)
      | (Inl (CheckoutError m), d1) \<Rightarrow> (Failure m ''checkout_error'', rollback d1)
      | (Inl err, d1) \<Rightarrow>
          (Failure (''Checkout failed: '' @ error_str err) ''system_error'', rollback d1))"

text \<open>\<^verbatim>\<open>CheckoutService.get_order_details\<close>.\<close>

definition get_order_details :: "db \<Rightarrow> int \<Rightarrow> int \<Rightarrow> Order option" where
  "get_order_details d order_id user_id =
     find (\<lambda>row. o_id row = order_id \<and> o_user_id row = user_id) (orders (session d))"

record refund_result =
  rr_status :: string
  rr_message :: string
  rr_amount :: rat

record cancel_result =
  cr_success :: bool
  cr_order_id :: int
  cr_order_number :: string
  cr_refund_result :: "refund_result option"

text \<open>The stock loop of \<^verbatim>\<open>cancel_order\<close>: an item whose product is gone is skipped.\<close>

fun restore_stock :: "store \<Rightarrow> OrderItem list \<Rightarrow> store" where
  "restore_stock st [] = st"
| "restore_stock st (item # rest) =
     (case find (\<lambda>p. p_id p = oi_product_id item) (products st) of
        None \<Rightarrow> restore_stock st rest
      | Some product \<Rightarrow>
          restore_stock
            (st\<lparr>products :=
                 map (\<lambda>p. if p_id p = p_id product
                           then p\<lparr>p_stock := p_stock p + oi_quantity item\<rparr> else p)
                   (products st)\<rparr>)
            rest)"

text \<open>\<^verbatim>\<open>CheckoutService.cancel_order\<close>.\<close>

definition cancel_order :: "env \<Rightarrow> db \<Rightarrow> int \<Rightarrow> int \<Rightarrow> (error + cancel_result) \<times> db" where
  "cancel_order e d order_id user_id =
     (case get_order_details d order_id user_id of
        None \<Rightarrow> (Inl (CheckoutError ''Order not found''), d)
      | Some order \<Rightarrow>
          if o_order_status order \<notin> set [''processing'', ''confirmed''] then
            (Inl (CheckoutError ''Cannot cancel order in current status''), d)
          else
            let refund_result =
                  (if o_payment_status order = ''success'' then
                     (let (refund_status, refund_message) =
                            refund_payment e (o_transaction_id order) (o_final_amount order)
                      in Some \<lparr>rr_status = status_value refund_status,
                               rr_message = refund_message,
                               rr_amount = o_final_amount order\<rparr>)
                   else None);
                order1 = order\<lparr>o_order_status := ''cancelled'',
                               o_payment_status :=
                                 (if refund_result \<noteq> None then ''refunded''
                                  else ''cancelled'')\<rparr>;
                st1 = put_order order1 (session d);
                order_items = filter (\<lambda>i. oi_order_id i = order_id) (order_items st1);
                st2 = restore_stock st1 order_items
            in (Inr \<lparr>cr_success = True,
                      cr_order_id = o_id order,
                      cr_order_number = o_order_number order,
                      cr_refund_result = refund_result\<rparr>,
                commit (d\<lparr>session := st2\<rparr>)))"

subsection \<open>The specification's reading of the cart check and of the stock restored\<close>

text \<open>What the specification says of one cart line, in its words: a missing product
  makes the line invalid with reason "Product not found", a stock below the requested
  quantity makes it invalid with reason "Insufficient stock" (with the available and
  the requested quantity), and any other line is valid with the line total
  \<open>price * quantity\<close>, the product of two floats.\<close>

definition spec_line :: "store \<Rightarrow> Cart \<Rightarrow> invalid_item + valid_item" where
  "spec_line st line =
     (case find (\<lambda>p. p_id p = c_product_id line) (products st) of
        None \<Rightarrow>
          Inl \<lparr>ii_cart_item_id = c_id line, ii_product_name = None,
               ii_available_stock = None, ii_requested_quantity = None,
               ii_reason = ''Product not found''\<rparr>
      | Some p \<Rightarrow>
          if p_stock p < c_quantity line then
            Inl \<lparr>ii_cart_item_id = c_id line, ii_product_name = Some (p_product_name p),
                 ii_available_stock = Some (p_stock p),
                 ii_requested_quantity = Some (c_quantity line),
                 ii_reason = ''Insufficient stock''\<rparr>
          else
            Inr \<lparr>vi_cart_item = line, vi_product = p,
                 vi_item_total = fmul (fl (p_price p)) (float_of_int (c_quantity line))\<rparr>)"

fun lefts :: "('a + 'b) list \<Rightarrow> 'a list" where
  "lefts [] = []"
| "lefts (Inl a # xs) = a # lefts xs"
| "lefts (Inr b # xs) = lefts xs"

fun rights :: "('a + 'b) list \<Rightarrow> 'b list" where
  "rights [] = []"
| "rights (Inl a # xs) = rights xs"
| "rights (Inr b # xs) = b # rights xs"

text \<open>The cart lines of a user, as the first query of \<^verbatim>\<open>validate_cart_items\<close> returns
  them.\<close>

definition user_cart :: "db \<Rightarrow> int \<Rightarrow> Cart list" where
  "user_cart d user_id = filter (\<lambda>c. c_user_id c = user_id) (carts (session d))"

text \<open>The quantity a list of order items holds of one product.\<close>

definition restored_quantity :: "OrderItem list \<Rightarrow> int \<Rightarrow> int" where
  "restored_quantity items product_id =
     sum_list (map oi_quantity (filter (\<lambda>i. oi_product_id i = product_id) items))"

subsection \<open>Concrete data for the scenarios\<close>

text \<open>A rounding to two places, ties away from zero, for the storage of the example
  environment. The amounts of the scenarios are not ties, so any rounding to the nearest
  hundredth gives the same rows.\<close>

definition numeric_2 :: "rat \<Rightarrow> rat" where
  "numeric_2 x =
     (if 0 \<le> x then of_int \<lfloor>x * 100 + 1 / 2\<rfloor> / 100
      else - (of_int \<lfloor>- x * 100 + 1 / 2\<rfloor> / 100))"

definition ex_env :: env where
  "ex_env = \<lparr>today = ''20240115'', now_year = 2024, now_month = 1,
              order_uuid8 = ''0A1B2C3D'', txn_uuid8 = ''4E5F6A7B'',
              random_value = 1 / 2, failure_choice = 1, refund_random = 1 / 2,
              fmt_rupees = (\<lambda>a. ''Rs''),
              decimal_10_2 = numeric_2,
              object_repr = (\<lambda>cls k. ''<'' @ cls @ '' at 0x7f3a5c1d2e80>'')\<rparr>"

text \<open>The same environment with a payment draw in the decline band, and with a refund
  draw in the failure band.\<close>

definition ex_env_declined :: env where
  "ex_env_declined = ex_env\<lparr>random_value := 9 / 10\<rparr>"

definition ex_env_refund_fails :: env where
  "ex_env_refund_fails = ex_env\<lparr>refund_random := 99 / 100\<rparr>"

definition ex_user :: User where
  "ex_user = \<lparr>u_id = 1, u_loyalty_score = 1200\<rparr>"

definition ex_saree :: Product where
  "ex_saree = \<lparr>p_id = 7, p_product_name = ''Silk Saree'', p_price = 250, p_stock = 5\<rparr>"

definition ex_gown :: Product where
  "ex_gown = \<lparr>p_id = 8, p_product_name = ''Evening Gown'', p_price = 900, p_stock = 1\<rparr>"

text \<open>One user, one product in stock, one cart line of two pieces: a subtotal of 500 at
  a loyalty score of 1200.\<close>

definition ex_store :: store where
  "ex_store = \<lparr>users = [ex_user],
                products = [ex_saree],
                carts = [\<lparr>c_id = 1, c_user_id = 1, c_product_id = 7, c_quantity = 2\<rparr>],
                orders = [],
                order_items = []\<rparr>"

definition ex_db :: db where
  "ex_db = \<lparr>persisted = ex_store, session = ex_store\<rparr>"

text \<open>What \<^verbatim>\<open>validate_cart_items\<close> returns for that cart.\<close>

definition ex_cart_500 :: validation_result where
  "ex_cart_500 =
     \<lparr>valid_items =
        [\<lparr>vi_cart_item = \<lparr>c_id = 1, c_user_id = 1, c_product_id = 7, c_quantity = 2\<rparr>,
          vi_product = ex_saree, vi_item_total = 500\<rparr>],
      invalid_items = [], total_amount = 500, item_count = 2\<rparr>"

text \<open>A cart with a valid line, a line whose product is gone and a line asking for
  more than the stock.\<close>

definition ex_store_mixed :: store where
  "ex_store_mixed =
     \<lparr>users = [ex_user],
      products = [ex_saree, ex_gown],
      carts = [\<lparr>c_id = 1, c_user_id = 1, c_product_id = 7, c_quantity = 2\<rparr>,
               \<lparr>c_id = 2, c_user_id = 1, c_product_id = 9, c_quantity = 1\<rparr>,
               \<lparr>c_id = 3, c_user_id = 1, c_product_id = 8, c_quantity = 4\<rparr>],
      orders = [],
      order_items = []\<rparr>"

definition ex_db_mixed :: db where
  "ex_db_mixed = \<lparr>persisted = ex_store_mixed, session = ex_store_mixed\<rparr>"

text \<open>Two users with a loyalty score of 0. The cart of the first is one piece at 1200.
  The cart of the second is three pieces at 128.02 and one at 615.94: in decimals a
  subtotal of 1000.00, in floats \<open>384.06000000000006 + 615.94 = 1000.0000000000001\<close>.\<close>

definition ex_guest :: User where
  "ex_guest = \<lparr>u_id = 2, u_loyalty_score = 0\<rparr>"

definition ex_newcomer :: User where
  "ex_newcomer = \<lparr>u_id = 3, u_loyalty_score = 0\<rparr>"

definition ex_lehenga :: Product where
  "ex_lehenga =
     \<lparr>p_id = 10, p_product_name = ''Bridal Lehenga'', p_price = 1200, p_stock = 3\<rparr>"

definition ex_dupatta :: Product where
  "ex_dupatta =
     \<lparr>p_id = 11, p_product_name = ''Silk Dupatta'', p_price = 12802 / 100, p_stock = 10\<rparr>"

definition ex_clutch :: Product where
  "ex_clutch =
     \<lparr>p_id = 12, p_product_name = ''Beaded Clutch'', p_price = 61594 / 100, p_stock = 4\<rparr>"

text \<open>A user just above the upper loyalty tier, with three pieces at 1.00 in the cart:
  the discount is the float product \<open>3 * 0.10 = 0.30000000000000004\<close>.\<close>

definition ex_regular :: User where
  "ex_regular = \<lparr>u_id = 4, u_loyalty_score = 1001\<rparr>"

definition ex_ribbon :: Product where
  "ex_ribbon = \<lparr>p_id = 13, p_product_name = ''Satin Ribbon'', p_price = 1, p_stock = 50\<rparr>"

definition ex_store_totals :: store where
  "ex_store_totals =
     \<lparr>users = [ex_guest, ex_newcomer, ex_regular],
      products = [ex_lehenga, ex_dupatta, ex_clutch, ex_ribbon],
      carts = [\<lparr>c_id = 4, c_user_id = 2, c_product_id = 10, c_quantity = 1\<rparr>,
               \<lparr>c_id = 5, c_user_id = 3, c_product_id = 11, c_quantity = 3\<rparr>,
               \<lparr>c_id = 6, c_user_id = 3, c_product_id = 12, c_quantity = 1\<rparr>,
               \<lparr>c_id = 7, c_user_id = 4, c_product_id = 13, c_quantity = 3\<rparr>],
      orders = [],
      order_items = []\<rparr>"

definition ex_db_totals :: db where
  "ex_db_totals = \<lparr>persisted = ex_store_totals, session = ex_store_totals\<rparr>"

text \<open>What \<^verbatim>\<open>validate_cart_items\<close> returns for these three carts; the amounts of
  the second are the doubles \<open>384.06000000000006\<close>, \<open>615.94\<close> and
  \<open>1000.0000000000001\<close>, written as the fractions they are.\<close>

definition ex_cart_3 :: validation_result where
  "ex_cart_3 =
     \<lparr>valid_items =
        [\<lparr>vi_cart_item = \<lparr>c_id = 7, c_user_id = 4, c_product_id = 13, c_quantity = 3\<rparr>,
          vi_product = ex_ribbon, vi_item_total = 3\<rparr>],
      invalid_items = [], total_amount = 3, item_count = 3\<rparr>"

definition ex_cart_1200 :: validation_result where
  "ex_cart_1200 =
     \<lparr>valid_items =
        [\<lparr>vi_cart_item = \<lparr>c_id = 4, c_user_id = 2, c_product_id = 10, c_quantity = 1\<rparr>,
          vi_product = ex_lehenga, vi_item_total = 1200\<rparr>],
      invalid_items = [], total_amount = 1200, item_count = 1\<rparr>"

definition ex_cart_float :: validation_result where
  "ex_cart_float =
     \<lparr>valid_items =
        [\<lparr>vi_cart_item = \<lparr>c_id = 5, c_user_id = 3, c_product_id = 11, c_quantity = 3\<rparr>,
          vi_product = ex_dupatta,
          vi_item_total = 3378227486109205 / 8796093022208\<rparr>,
         \<lparr>vi_cart_item = \<lparr>c_id = 6, c_user_id = 3, c_product_id = 12, c_quantity = 1\<rparr>,
          vi_product = ex_clutch,
          vi_item_total = 1354466384024699 / 2199023255552\<rparr>],
      invalid_items = [],
      total_amount = 8796093022208001 / 8796093022208,
      item_count = 4\<rparr>"

definition ex_order :: Order where
  "ex_order = \<lparr>o_id = 1, o_order_number = ''LUX-20240110-AAAA0001'', o_user_id = 1,
                o_total_amount = 500, o_tax_amount = 3994 / 100, o_shipping_amount = 199,
                o_discount_amount = 50, o_final_amount = 68894 / 100,
                o_payment_status = ''paid'', o_payment_method = ''upi'',
                o_transaction_id = Some ''TXN-20240110-BBBB0001'',
                o_shipping_address = ''12 Temple Road'',
                o_billing_address = ''12 Temple Road'',
                o_order_status = ''confirmed'', o_notes = None\<rparr>"

text \<open>An order as \<^verbatim>\<open>create_order\<close> leaves it, not yet paid.\<close>

definition ex_pending_order :: Order where
  "ex_pending_order =
     ex_order\<lparr>o_id := 4, o_order_number := ''LUX-20240110-AAAA0004'',
              o_payment_status := ''pending'', o_transaction_id := None,
              o_order_status := ''processing''\<rparr>"

text \<open>Four orders of the same user: a confirmed one whose payment status is the
  \<open>paid\<close> that \<^verbatim>\<open>process_payment\<close> writes, a shipped one, a confirmed one whose
  payment status is the literal \<open>success\<close>, and the one not yet paid.\<close>

definition ex_store_orders :: store where
  "ex_store_orders =
     \<lparr>users = [ex_user],
      products = [ex_saree\<lparr>p_stock := 2\<rparr>, ex_gown],
      carts = [],
      orders = [ex_order,
                ex_order\<lparr>o_id := 2, o_order_number := ''LUX-20240110-AAAA0002'',
                           o_order_status := ''shipped''\<rparr>,
                ex_order\<lparr>o_id := 3, o_order_number := ''LUX-20240110-AAAA0003'',
                           o_payment_status := ''success''\<rparr>,
                ex_pending_order],
      order_items =
        [\<lparr>oi_order_id = 1, oi_product_id = 7, oi_product_name = ''Silk Saree'',
          oi_quantity = 2, oi_unit_price = 250, oi_total_price = 500\<rparr>,
         \<lparr>oi_order_id = 3, oi_product_id = 7, oi_product_name = ''Silk Saree'',
          oi_quantity = 1, oi_unit_price = 250, oi_total_price = 250\<rparr>,
         \<lparr>oi_order_id = 4, oi_product_id = 7, oi_product_name = ''Silk Saree'',
          oi_quantity = 2, oi_unit_price = 250, oi_total_price = 500\<rparr>]\<rparr>"

definition ex_db_orders :: db where
  "ex_db_orders = \<lparr>persisted = ex_store_orders, session = ex_store_orders\<rparr>"

text \<open>Card details: a well-formed card, one that lacks every field but the number, and
  one whose expiry month is null.\<close>

definition ex_card :: card_details where
  "ex_card = [(''card_number'', PStr ''4111111111111111''), (''expiry_month'', PInt 12),
              (''expiry_year'', PStr ''2030''), (''cvv'', PStr ''123'')]"

definition ex_card_number_only :: card_details where
  "ex_card_number_only = [(''card_number'', PStr ''4111111111111111'')]"

definition ex_card_null_month :: card_details where
  "ex_card_null_month =
     [(''card_number'', PInt 4111111111111111), (''expiry_month'', PNone),
      (''expiry_year'', PInt 2030), (''cvv'', PStr ''123'')]"

section \<open>Facts about the embedding\<close>

lemmas ex_defs =
  ex_env_def ex_env_declined_def ex_env_refund_fails_def ex_user_def ex_saree_def
  ex_gown_def ex_store_def ex_db_def ex_store_mixed_def ex_db_mixed_def ex_order_def
  ex_store_orders_def ex_db_orders_def ex_cart_500_def ex_cart_1200_def ex_card_def
  ex_card_number_only_def ex_card_null_month_def ex_guest_def ex_newcomer_def
  ex_lehenga_def ex_dupatta_def ex_clutch_def ex_store_totals_def ex_db_totals_def
  ex_cart_float_def ex_pending_order_def ex_regular_def ex_ribbon_def ex_cart_3_def

subsection \<open>The rounding error of a float operation\<close>

text \<open>\<open>pow2\<close> is the power of two, \<open>ilog2\<close> brackets a positive integer between two
  consecutive powers, and \<open>float_exponent\<close> brackets a non-zero rational likewise. So
  \<open>fl\<close> moves its argument by at most half a unit in the last of 53 bits: a relative
  error of at most \<open>2\<^sup>-\<^sup>5\<^sup>3\<close>.\<close>

lemma pow2_pos: "0 < pow2 k"
proof (induction k rule: pow2.induct)
  case (1 k)
  show ?case
  proof (cases "k = 0")
    case True
    then show ?thesis by (simp add: pow2.simps)
  next
    case False
    show ?thesis
    proof (cases "0 < k")
      case True
      with False "1.IH"(1) have "0 < pow2 (k - 1)" by simp
      with False True show ?thesis by (subst pow2.simps) simp
    next
      case neg: False
      with False "1.IH"(2) have "0 < pow2 (k + 1)" by simp
      with False neg show ?thesis by (subst pow2.simps) simp
    qed
  qed
qed

lemma pow2_Suc: "pow2 (k + 1) = 2 * pow2 k"
proof (cases "0 \<le> k")
  case True
  then show ?thesis by (subst pow2.simps) simp
next
  case False
  then have "pow2 k = pow2 (k + 1) / 2" by (subst pow2.simps) simp
  then show ?thesis by simp
qed

lemma pow2_pred: "pow2 (k - 1) = pow2 k / 2"
  using pow2_Suc [of "k - 1"] by simp

lemma pow2_add: "pow2 (a + b) = pow2 a * pow2 b"
proof (induction b rule: int_induct [where k = 0])
  case base
  show ?case by (simp add: pow2.simps [of 0])
next
  case (step1 i)
  have "pow2 (a + (i + 1)) = 2 * pow2 (a + i)"
    using pow2_Suc [of "a + i"] by (simp add: add.assoc)
  with step1 show ?case by (simp add: pow2_Suc)
next
  case (step2 i)
  have "pow2 (a + (i - 1)) = pow2 (a + i) / 2"
    using pow2_pred [of "a + i"] by (simp add: algebra_simps)
  with step2 show ?case by (simp add: pow2_pred)
qed

lemma pow2_diff: "pow2 (a - b) = pow2 a / pow2 b"
proof -
  have "pow2 (a - b) * pow2 b = pow2 a"
    using pow2_add [of "a - b" b] by simp
  with pow2_pos [of b] show ?thesis by (simp add: field_simps)
qed

lemma ilog2_bounds:
  "1 \<le> n \<Longrightarrow> pow2 (ilog2 n) \<le> of_int n \<and> of_int n < pow2 (ilog2 n + 1) \<and>
     (\<exists>m::int. pow2 (ilog2 n) = of_int m)"
proof (induction n rule: ilog2.induct)
  case (1 n)
  show ?case
  proof (cases "n < 2")
    case True
    with "1.prems" have "n = 1" by simp
    then have "ilog2 n = 0" by (simp add: ilog2.simps)
    with \<open>n = 1\<close> show ?thesis
      by (simp add: pow2.simps [of 0] pow2.simps [of 1] exI [of _ 1])
  next
    case False
    then have h: "1 \<le> n div 2" by simp
    from False have il: "ilog2 n = ilog2 (n div 2) + 1" by (subst ilog2.simps) simp
    from "1.IH" [OF False h] obtain m :: int where
      lo: "pow2 (ilog2 (n div 2)) \<le> of_int (n div 2)" and
      hi: "of_int (n div 2) < pow2 (ilog2 (n div 2) + 1)" and
      m: "pow2 (ilog2 (n div 2)) = of_int m"
      by blast
    have n2: "2 * (n div 2) \<le> n" "n \<le> 2 * (n div 2) + 1" by simp_all
    from lo n2(1) have a: "pow2 (ilog2 n) \<le> of_int n"
    proof -
      have "2 * pow2 (ilog2 (n div 2)) \<le> 2 * (of_int (n div 2) :: rat)" using lo by simp
      also have "\<dots> = of_int (2 * (n div 2))" by simp
      also have "\<dots> \<le> of_int n" using n2(1) by (simp only: of_int_le_iff)
      finally show ?thesis by (simp add: il pow2_Suc)
    qed
    from hi m have "(of_int (n div 2) :: rat) < of_int (2 * m)" by (simp add: pow2_Suc)
    then have "n div 2 < 2 * m" by (simp only: of_int_less_iff)
    then have "n div 2 + 1 \<le> 2 * m" by simp
    with n2(2) have "n < 4 * m" by simp
    then have "(of_int n :: rat) < of_int (4 * m)" by (simp only: of_int_less_iff)
    moreover have "pow2 (ilog2 n + 1) = 2 * (2 * pow2 (ilog2 (n div 2)))"
      unfolding il pow2_Suc ..
    ultimately have b: "of_int n < pow2 (ilog2 n + 1)"
      by (simp add: m)
    have "pow2 (ilog2 n) = 2 * pow2 (ilog2 (n div 2))"
      unfolding il pow2_Suc ..
    then have c: "pow2 (ilog2 n) = of_int (2 * m)" by (simp add: m)
    from a b c show ?thesis by blast
  qed
qed

lemma float_exponent_bounds:
  assumes "x \<noteq> 0"
  shows "pow2 (float_exponent x) \<le> \<bar>x\<bar> \<and> \<bar>x\<bar> < pow2 (float_exponent x + 1)"
proof -
  obtain p q where pq: "quotient_of \<bar>x\<bar> = (p, q)" by (cases "quotient_of \<bar>x\<bar>")
  then have q: "0 < q" and ax: "\<bar>x\<bar> = of_int p / of_int q"
    by (simp_all add: quotient_of_denom_pos quotient_of_div)
  from assms have "0 < \<bar>x\<bar>" by simp
  with ax q have "0 < (of_int p :: rat)" by (simp add: zero_less_divide_iff)
  then have p: "1 \<le> p" by simp
  from q have q1: "1 \<le> q" by simp
  define k where "k = ilog2 p - ilog2 q"
  from ilog2_bounds [OF p] have pl: "pow2 (ilog2 p) \<le> of_int p"
    and ph: "of_int p < pow2 (ilog2 p + 1)" by blast+
  from ilog2_bounds [OF q1] have ql: "pow2 (ilog2 q) \<le> of_int q"
    and qh: "of_int q < pow2 (ilog2 q + 1)" by blast+
  have qpos: "0 < (of_int q :: rat)" using q by simp
  have kk: "pow2 k = pow2 (ilog2 p) / pow2 (ilog2 q)" by (simp add: k_def pow2_diff)
  have pq2: "pow2 (ilog2 q) > 0" "pow2 k > 0" by (rule pow2_pos)+
  \<comment> \<open>\<open>p < q * 2^(k+1)\<close>\<close>
  have up: "of_int p < of_int q * pow2 (k + 1)"
  proof -
    have "of_int p < 2 * pow2 (ilog2 p)" using ph by (simp add: pow2_Suc)
    also have "\<dots> = 2 * pow2 k * pow2 (ilog2 q)" using pq2 by (simp add: kk)
    also have "\<dots> \<le> 2 * pow2 k * of_int q" using ql pq2 by simp
    finally show ?thesis by (simp add: pow2_Suc mult.commute)
  qed
  \<comment> \<open>\<open>q * 2^(k-1) \<le> p\<close>\<close>
  have lo: "of_int q * pow2 (k - 1) \<le> of_int p"
  proof -
    have "of_int q * pow2 (k - 1) \<le> 2 * pow2 (ilog2 q) * pow2 (k - 1)"
      using qh pow2_pos [of "k - 1"] by (simp add: pow2_Suc)
    also have "\<dots> = pow2 (ilog2 q) * pow2 k" by (simp add: pow2_pred)
    also have "\<dots> = pow2 (ilog2 p)" using pq2 by (simp add: kk)
    also have "\<dots> \<le> of_int p" by (rule pl)
    finally show ?thesis .
  qed
  show ?thesis
  proof (cases "of_int p < of_int q * pow2 k")
    case True
    then have e: "float_exponent x = k - 1"
      by (simp add: float_exponent_def pq k_def Let_def)
    from lo qpos have "pow2 (k - 1) \<le> of_int p / of_int q"
      by (simp add: pos_le_divide_eq mult.commute)
    moreover from True qpos have "of_int p / of_int q < pow2 k"
      by (simp add: pos_divide_less_eq mult.commute)
    ultimately show ?thesis by (simp add: e ax)
  next
    case False
    then have e: "float_exponent x = k"
      by (simp add: float_exponent_def pq k_def Let_def)
    from False qpos have "pow2 k \<le> of_int p / of_int q"
      by (simp add: pos_le_divide_eq mult.commute not_less)
    moreover from up qpos have "of_int p / of_int q < pow2 (k + 1)"
      by (simp add: pos_divide_less_eq mult.commute)
    ultimately show ?thesis by (simp add: e ax)
  qed
qed

lemma round_half_even_error: "\<bar>of_int (round_half_even y) - y\<bar> \<le> 1 / 2"
proof -
  have "of_int \<lfloor>y\<rfloor> \<le> y" "y < of_int \<lfloor>y\<rfloor> + 1" by linarith+
  then show ?thesis
    by (auto simp add: round_half_even_def Let_def abs_le_iff)
qed

lemma fl_error: "\<bar>fl x - x\<bar> \<le> \<bar>x\<bar> * pow2 (- 53)"
proof (cases "x = 0")
  case True
  then show ?thesis by (simp add: fl_def)
next
  case False
  define u where "u = pow2 (float_exponent x - 52)"
  have upos: "0 < u" unfolding u_def by (rule pow2_pos)
  have f: "fl x = of_int (round_half_even (x / u)) * u"
    using False by (simp add: fl_def u_def Let_def)
  have "fl x - x = (of_int (round_half_even (x / u)) - x / u) * u"
    using upos by (simp add: f field_simps)
  then have "\<bar>fl x - x\<bar> = \<bar>of_int (round_half_even (x / u)) - x / u\<bar> * u"
    using upos by (simp add: abs_mult)
  also have "\<dots> \<le> 1 / 2 * u"
    using round_half_even_error [of "x / u"] upos by (intro mult_right_mono) simp_all
  also have "\<dots> = pow2 (float_exponent x) * pow2 (- 53)"
  proof -
    have a: "u = pow2 (float_exponent x) / pow2 52" by (simp add: u_def pow2_diff)
    have b: "pow2 (- 53) = 1 / pow2 53"
      using pow2_diff [of 0 53] by (simp add: pow2.simps [of 0])
    have c: "pow2 53 = 2 * pow2 52" using pow2_Suc [of 52] by simp
    show ?thesis by (simp add: a b c)
  qed
  also have "\<dots> \<le> \<bar>x\<bar> * pow2 (- 53)"
    using float_exponent_bounds [OF False] pow2_pos [of "- 53"]
    by (intro mult_right_mono) simp_all
  finally show ?thesis .
qed

lemma pow2_m53: "pow2 (- 53) = 1 / 2 ^ 53"
  by code_simp

lemma fl_error_53: "\<bar>fl x - x\<bar> \<le> \<bar>x\<bar> / 2 ^ 53"
  using fl_error [of x] by (simp add: pow2_m53)

lemma fl_zero: "fl 0 = 0"
  by (simp add: fl_def)

text \<open>A product with the double of a rate, against the exact product with the rate:
  two roundings, so a relative error of at most \<open>3 \<times> 2\<^sup>-\<^sup>5\<^sup>3\<close>.\<close>

lemma fmul_rate_error: "\<bar>fmul s (fl r) - s * r\<bar> \<le> 3 / 2 ^ 53 * \<bar>s * r\<bar>"
proof -
  define u :: rat where "u = 1 / 2 ^ 53"
  define A where "A = \<bar>s * r\<bar> * u"
  define B where "B = \<bar>s * fl r\<bar> * u"
  have u0: "0 \<le> u" and u1: "u \<le> 1" by (simp_all add: u_def)
  have A0: "0 \<le> A" using u0 by (simp add: A_def)
  have d1: "\<bar>fl r - r\<bar> \<le> \<bar>r\<bar> * u"
    using fl_error_53 [of r] by (simp add: u_def)
  have d2: "\<bar>fl (s * fl r) - s * fl r\<bar> \<le> B"
    using fl_error_53 [of "s * fl r"] by (simp add: u_def B_def)
  have "\<bar>s\<bar> * \<bar>fl r - r\<bar> \<le> \<bar>s\<bar> * (\<bar>r\<bar> * u)"
    using d1 by (intro mult_left_mono) simp_all
  moreover have "\<bar>s\<bar> * \<bar>fl r - r\<bar> = \<bar>s * fl r - s * r\<bar>"
    by (simp add: abs_mult [symmetric] right_diff_distrib)
  moreover have "\<bar>s\<bar> * (\<bar>r\<bar> * u) = A"
    by (simp add: A_def abs_mult)
  ultimately have e1: "\<bar>s * fl r - s * r\<bar> \<le> A" by simp
  then have "\<bar>s * fl r\<bar> \<le> \<bar>s * r\<bar> + A" by linarith
  then have "\<bar>s * fl r\<bar> * u \<le> (\<bar>s * r\<bar> + A) * u"
    using u0 by (rule mult_right_mono)
  moreover have "(\<bar>s * r\<bar> + A) * u = A + A * u"
    by (simp add: A_def distrib_right)
  moreover have "A * u \<le> A * 1"
    using u1 A0 by (rule mult_left_mono)
  ultimately have e2: "B \<le> 2 * A" by (simp add: B_def)
  have "\<bar>fl (s * fl r) - s * r\<bar> \<le> \<bar>fl (s * fl r) - s * fl r\<bar> + \<bar>s * fl r - s * r\<bar>"
    by linarith
  also have "\<dots> \<le> 3 * A"
    using d2 e2 e1 by linarith
  finally show ?thesis by (simp add: fmul_def u_def A_def)
qed

lemma fsub_error: "\<bar>fsub a b - (a - b)\<bar> \<le> \<bar>a - b\<bar> / 2 ^ 53"
  unfolding fsub_def by (rule fl_error_53)

lemma fadd_error: "\<bar>fadd a b - (a + b)\<bar> \<le> \<bar>a + b\<bar> / 2 ^ 53"
  unfolding fadd_def by (rule fl_error_53)

subsection \<open>The carts of the scenarios\<close>

text \<open>The validation results of the scenarios are what \<open>validate_cart_items\<close>
  returns for the carts of the example stores. The third shows the float arithmetic of
  the line totals and of the running sum.\<close>

lemma ex_cart_500_validated: "validate_cart_items ex_db 1 = Inr ex_cart_500"
  by code_simp

lemma ex_cart_1200_validated: "validate_cart_items ex_db_totals 2 = Inr ex_cart_1200"
  by code_simp

lemma ex_cart_float_validated: "validate_cart_items ex_db_totals 3 = Inr ex_cart_float"
  by code_simp

lemma ex_cart_3_validated: "validate_cart_items ex_db_totals 4 = Inr ex_cart_3"
  by code_simp

subsection \<open>Order totals\<close>

text \<open>The totals of the scenarios. With the float subtotal \<open>1000.0000000000001\<close>
  the tax is \<open>88.75\<close>, shipping is free and the final amount is \<open>1088.75\<close>. With
  a subtotal of 3 at a score of 1001 the discount is \<open>0.30000000000000004\<close>, the
  taxable amount \<open>2.7\<close>, the tax \<open>0.239625\<close> and the final amount
  \<open>201.939625\<close>, each the double of that rendering.\<close>

lemma ex_totals_500:
  "calculate_order_totals ex_cart_500 ex_user [] [] =
     \<lparr>subtotal = 500, discount_amount = 50,
      discount_rate = 3602879701896397 / 36028797018963968,
      tax_amount = 399375 / 10000, shipping_amount = 199,
      final_amount = 6889375 / 10000\<rparr>"
  by code_simp

lemma ex_totals_1200:
  "calculate_order_totals ex_cart_1200 ex_guest [] [] =
     \<lparr>subtotal = 1200, discount_amount = 0, discount_rate = 0,
      tax_amount = 10650 / 100, shipping_amount = 0, final_amount = 130650 / 100\<rparr>"
  by code_simp

lemma ex_totals_float:
  "calculate_order_totals ex_cart_float ex_newcomer [] [] =
     \<lparr>subtotal = 8796093022208001 / 8796093022208, discount_amount = 0,
      discount_rate = 0, tax_amount = 8875 / 100, shipping_amount = 0,
      final_amount = 108875 / 100\<rparr>"
  by code_simp

lemma ex_totals_3:
  "calculate_order_totals ex_cart_3 ex_regular [] [] =
     \<lparr>subtotal = 3, discount_amount = 1351079888211149 / 4503599627370496,
      discount_rate = 3602879701896397 / 36028797018963968,
      tax_amount = 8633400485669241 / 36028797018963968, shipping_amount = 199,
      final_amount = 7105118905479201 / 35184372088832\<rparr>"
  by code_simp

text \<open>Claim C5. For every subtotal and loyalty score, \<open>calculate_order_totals\<close> gives:
  the discount is the subtotal times 0.10 above a score of 1000, times 0.05 above a score
  of 500, and zero otherwise; the tax is 8.875 percent of the subtotal less the discount;
  shipping is free when the subtotal less the discount exceeds 1000 and costs 199
  otherwise; the final amount is the subtotal less the discount, plus tax, plus
  shipping. The products, the difference and the sums are Python's float operations,
  and the rates are the doubles of the literals; so the discount and the tax are within
  a relative error of \<open>3 \<times> 2\<^sup>-\<^sup>5\<^sup>3\<close> of the exact products with the decimal rates.\<close>

theorem calculate_order_totals_formula:
  "discount_amount (calculate_order_totals cv user sa ba) =
     fmul (total_amount cv)
       (if u_loyalty_score user > 1000 then fl (10 / 100)
        else if u_loyalty_score user > 500 then fl (5 / 100) else 0) \<and>
   tax_amount (calculate_order_totals cv user sa ba) =
     fmul (fsub (total_amount cv) (discount_amount (calculate_order_totals cv user sa ba)))
       (fl ((8875 / 1000) / 100)) \<and>
   shipping_amount (calculate_order_totals cv user sa ba) =
     (if fsub (total_amount cv) (discount_amount (calculate_order_totals cv user sa ba))
           > 1000
      then 0 else 199) \<and>
   final_amount (calculate_order_totals cv user sa ba) =
     fadd
       (fadd
          (fsub (total_amount cv) (discount_amount (calculate_order_totals cv user sa ba)))
          (tax_amount (calculate_order_totals cv user sa ba)))
       (shipping_amount (calculate_order_totals cv user sa ba)) \<and>
   \<bar>discount_amount (calculate_order_totals cv user sa ba) -
      total_amount cv *
        (if u_loyalty_score user > 1000 then 10 / 100
         else if u_loyalty_score user > 500 then 5 / 100 else 0)\<bar>
     \<le> 3 / 2 ^ 53 *
        \<bar>total_amount cv *
           (if u_loyalty_score user > 1000 then 10 / 100
            else if u_loyalty_score user > 500 then 5 / 100 else 0)\<bar> \<and>
   \<bar>tax_amount (calculate_order_totals cv user sa ba) -
      fsub (total_amount cv) (discount_amount (calculate_order_totals cv user sa ba)) *
        ((8875 / 1000) / 100)\<bar>
     \<le> 3 / 2 ^ 53 *
        \<bar>fsub (total_amount cv) (discount_amount (calculate_order_totals cv user sa ba)) *
           ((8875 / 1000) / 100)\<bar>"
proof -
  let ?t = "calculate_order_totals cv user sa ba"
  let ?r = "if u_loyalty_score user > 1000 then 10 / 100
            else if u_loyalty_score user > 500 then 5 / 100 else (0 :: rat)"
  have rate: "(if u_loyalty_score user > 1000 then fl (10 / 100)
               else if u_loyalty_score user > 500 then fl (5 / 100) else 0) = fl ?r"
    by (simp add: fl_zero)
  have d: "discount_amount ?t = fmul (total_amount cv) (fl ?r)"
    unfolding rate [symmetric] by (simp add: calculate_order_totals_def Let_def)
  have t: "tax_amount ?t =
             fmul (fsub (total_amount cv) (discount_amount ?t)) (fl ((8875 / 1000) / 100))"
    by (simp add: calculate_order_totals_def Let_def)
  have s: "shipping_amount ?t =
             (if fsub (total_amount cv) (discount_amount ?t) > 1000 then 0 else 199)"
    by (simp add: calculate_order_totals_def Let_def)
  have f: "final_amount ?t =
             fadd (fadd (fsub (total_amount cv) (discount_amount ?t)) (tax_amount ?t))
               (shipping_amount ?t)"
    by (simp add: calculate_order_totals_def Let_def)
  have de: "\<bar>discount_amount ?t - total_amount cv * ?r\<bar> \<le> 3 / 2 ^ 53 * \<bar>total_amount cv * ?r\<bar>"
    unfolding d by (rule fmul_rate_error)
  have te: "\<bar>tax_amount ?t -
               fsub (total_amount cv) (discount_amount ?t) * ((8875 / 1000) / 100)\<bar>
             \<le> 3 / 2 ^ 53 *
                \<bar>fsub (total_amount cv) (discount_amount ?t) * ((8875 / 1000) / 100)\<bar>"
    unfolding t by (rule fmul_rate_error)
  from d [unfolded rate [symmetric]] t s f de te show ?thesis by (intro conjI)
qed

text \<open>The formula at the specification's scenario of a subtotal of 1200 and a score of
  0 (no discount, a tax of 106.50, free shipping, 1306.50 in all), at the float subtotal
  \<open>1000.0000000000001\<close> of the third cart, which is above the free shipping
  threshold, and at a subtotal of 3 with a score of 1001, where the discount is the
  double \<open>0.30000000000000004\<close> and not three tenths.\<close>

theorem calculate_order_totals_formula_witness:
  "discount_amount (calculate_order_totals ex_cart_1200 ex_guest [] []) = 0 \<and>
   tax_amount (calculate_order_totals ex_cart_1200 ex_guest [] []) = 10650 / 100 \<and>
   shipping_amount (calculate_order_totals ex_cart_1200 ex_guest [] []) = 0 \<and>
   final_amount (calculate_order_totals ex_cart_1200 ex_guest [] []) = 130650 / 100 \<and>
   discount_amount (calculate_order_totals ex_cart_float ex_newcomer [] []) = 0 \<and>
   tax_amount (calculate_order_totals ex_cart_float ex_newcomer [] []) = 8875 / 100 \<and>
   shipping_amount (calculate_order_totals ex_cart_float ex_newcomer [] []) = 0 \<and>
   final_amount (calculate_order_totals ex_cart_float ex_newcomer [] []) = 108875 / 100 \<and>
   discount_amount (calculate_order_totals ex_cart_3 ex_regular [] []) =
     1351079888211149 / 4503599627370496 \<and>
   discount_amount (calculate_order_totals ex_cart_3 ex_regular [] []) \<noteq> 3 / 10 \<and>
   final_amount (calculate_order_totals ex_cart_3 ex_regular [] []) =
     7105118905479201 / 35184372088832"
  using calculate_order_totals_formula [of ex_cart_1200 ex_guest "[]" "[]"]
    calculate_order_totals_formula [of ex_cart_float ex_newcomer "[]" "[]"]
    calculate_order_totals_formula [of ex_cart_3 ex_regular "[]" "[]"]
  by (simp add: ex_totals_1200 ex_totals_float ex_totals_3)

text \<open>Claim C6, as stated, fails. At a subtotal of 500 and a loyalty score of 1200 the
  totals calculation returns a tax that is not 39.94 and a final amount that is not
  688.94 (neither the decimals nor the doubles of these literals), and the final amount
  is not the \<open>round(.., 2)\<close> of its own sum.\<close>

theorem final_amount_not_rounded_counterexample:
  "tax_amount (calculate_order_totals ex_cart_500 ex_user [] []) \<noteq> 3994 / 100 \<and>
   tax_amount (calculate_order_totals ex_cart_500 ex_user [] []) \<noteq> fl (3994 / 100) \<and>
   final_amount (calculate_order_totals ex_cart_500 ex_user [] []) \<noteq> 68894 / 100 \<and>
   final_amount (calculate_order_totals ex_cart_500 ex_user [] []) \<noteq> fl (68894 / 100) \<and>
   final_amount (calculate_order_totals ex_cart_500 ex_user [] []) \<noteq>
     spec_round2
       (fadd
          (fadd
             (fsub (subtotal (calculate_order_totals ex_cart_500 ex_user [] []))
                (discount_amount (calculate_order_totals ex_cart_500 ex_user [] [])))
             (tax_amount (calculate_order_totals ex_cart_500 ex_user [] [])))
          (shipping_amount (calculate_order_totals ex_cart_500 ex_user [] [])))"
  by code_simp

text \<open>Claim C6, amended. The final amount is the subtotal less the discount, plus tax,
  plus shipping, as the float operations give it, with no rounding to two decimals; at a
  subtotal of 500 and a loyalty score of 1200 the discount is 50, the tax 39.9375,
  shipping 199 and the final amount 688.9375.\<close>

theorem final_amount_exact_sum:
  "final_amount (calculate_order_totals cv user sa ba) =
     fadd
       (fadd
          (fsub (subtotal (calculate_order_totals cv user sa ba))
             (discount_amount (calculate_order_totals cv user sa ba)))
          (tax_amount (calculate_order_totals cv user sa ba)))
       (shipping_amount (calculate_order_totals cv user sa ba)) \<and>
   discount_amount (calculate_order_totals ex_cart_500 ex_user [] []) = 50 \<and>
   tax_amount (calculate_order_totals ex_cart_500 ex_user [] []) = 399375 / 10000 \<and>
   shipping_amount (calculate_order_totals ex_cart_500 ex_user [] []) = 199 \<and>
   final_amount (calculate_order_totals ex_cart_500 ex_user [] []) = 6889375 / 10000"
proof -
  have "final_amount (calculate_order_totals cv user sa ba) =
     fadd
       (fadd
          (fsub (subtotal (calculate_order_totals cv user sa ba))
             (discount_amount (calculate_order_totals cv user sa ba)))
          (tax_amount (calculate_order_totals cv user sa ba)))
       (shipping_amount (calculate_order_totals cv user sa ba))"
    by (simp add: calculate_order_totals_def Let_def)
  then show ?thesis
    by (simp add: ex_totals_500)
qed

subsection \<open>Cart validation\<close>

lemma validate_step_spec:
  "validate_step st vr line =
     (case spec_line st line of
        Inl bad \<Rightarrow> vr\<lparr>invalid_items := invalid_items vr @ [bad]\<rparr>
      | Inr good \<Rightarrow> vr\<lparr>valid_items := valid_items vr @ [good],
                         total_amount := fadd (total_amount vr) (vi_item_total good),
                         item_count := item_count vr + c_quantity (vi_cart_item good)\<rparr>)"
  by (simp add: validate_step_def spec_line_def Let_def split: option.splits)

lemma validate_loop_spec:
  "validate_loop st vr lines =
     \<lparr>valid_items = valid_items vr @ rights (map (spec_line st) lines),
      invalid_items = invalid_items vr @ lefts (map (spec_line st) lines),
      total_amount =
        foldl fadd (total_amount vr) (map vi_item_total (rights (map (spec_line st) lines))),
      item_count = item_count vr +
        sum_list (map (\<lambda>v. c_quantity (vi_cart_item v)) (rights (map (spec_line st) lines)))\<rparr>"
proof (induction lines arbitrary: vr)
  case Nil
  show ?case by simp
next
  case (Cons line lines)
  show ?case
    by (cases "spec_line st line") (simp_all add: Cons.IH validate_step_spec)
qed

text \<open>Claim C8. \<open>validate_cart_items\<close> raises a checkout error exactly when the user's
  cart is empty, and raises nothing else. On a cart that is not empty it returns, whatever
  the lines are: the invalid items are the lines the specification calls invalid, in
  order, each with its reason; the valid items are the other lines, each with the line
  total \<open>price * quantity\<close>; \<open>total_amount\<close> is the running float sum of the valid line
  totals, taken in order from 0, and \<open>item_count\<close> the sum of the valid quantities.\<close>

theorem validate_cart_items_partitions:
  "((\<exists>m. validate_cart_items d uid = Inl (CheckoutError m)) \<longleftrightarrow> user_cart d uid = []) \<and>
   (isl (validate_cart_items d uid) \<longleftrightarrow> user_cart d uid = []) \<and>
   (user_cart d uid \<noteq> [] \<longrightarrow>
      validate_cart_items d uid =
        Inr \<lparr>valid_items = rights (map (spec_line (session d)) (user_cart d uid)),
             invalid_items = lefts (map (spec_line (session d)) (user_cart d uid)),
             total_amount =
               foldl fadd 0 (map vi_item_total
                 (rights (map (spec_line (session d)) (user_cart d uid)))),
             item_count =
               sum_list (map (\<lambda>v. c_quantity (vi_cart_item v))
                 (rights (map (spec_line (session d)) (user_cart d uid))))\<rparr>)"
  by (simp add: validate_cart_items_def user_cart_def Let_def validate_loop_spec)

lemma ex_mixed_lines:
  "map (spec_line (session ex_db_mixed)) (user_cart ex_db_mixed 1) =
      [Inr \<lparr>vi_cart_item = \<lparr>c_id = 1, c_user_id = 1, c_product_id = 7, c_quantity = 2\<rparr>,
            vi_product = ex_saree, vi_item_total = 500\<rparr>,
       Inl \<lparr>ii_cart_item_id = 2, ii_product_name = None, ii_available_stock = None,
            ii_requested_quantity = None, ii_reason = ''Product not found''\<rparr>,
       Inl \<lparr>ii_cart_item_id = 3, ii_product_name = Some ''Evening Gown'',
            ii_available_stock = Some 1, ii_requested_quantity = Some 4,
            ii_reason = ''Insufficient stock''\<rparr>]"
  by code_simp

lemma ex_float_lines:
  "map (spec_line (session ex_db_totals)) (user_cart ex_db_totals 3) =
     map Inr (valid_items ex_cart_float)"
  by code_simp

lemma ex_float_sum:
  "foldl fadd 0 (map vi_item_total (valid_items ex_cart_float)) =
     8796093022208001 / 8796093022208"
  by code_simp

text \<open>A cart of three lines, one valid, one of a missing product, one short of stock:
  the call returns, with one valid item of total 500 and both reasons recorded. A user
  with no cart line gets the checkout error. The cart of 3 x 128.02 and 615.94 has the
  float total \<open>1000.0000000000001\<close>.\<close>

theorem validate_cart_items_partitions_witness:
  "user_cart ex_db_mixed 1 \<noteq> [] \<and>
   validate_cart_items ex_db_mixed 1 =
     Inr \<lparr>valid_items =
            [\<lparr>vi_cart_item = \<lparr>c_id = 1, c_user_id = 1, c_product_id = 7, c_quantity = 2\<rparr>,
              vi_product = ex_saree, vi_item_total = 500\<rparr>],
          invalid_items =
            [\<lparr>ii_cart_item_id = 2, ii_product_name = None, ii_available_stock = None,
              ii_requested_quantity = None, ii_reason = ''Product not found''\<rparr>,
             \<lparr>ii_cart_item_id = 3, ii_product_name = Some ''Evening Gown'',
              ii_available_stock = Some 1, ii_requested_quantity = Some 4,
              ii_reason = ''Insufficient stock''\<rparr>],
          total_amount = 500, item_count = 2\<rparr> \<and>
   user_cart ex_db_mixed 2 = [] \<and>
   validate_cart_items ex_db_mixed 2 = Inl (CheckoutError ''Cart is empty'') \<and>
   user_cart ex_db_totals 3 \<noteq> [] \<and>
   validate_cart_items ex_db_totals 3 =
     Inr \<lparr>valid_items = valid_items ex_cart_float, invalid_items = [],
          total_amount = 8796093022208001 / 8796093022208, item_count = 4\<rparr>"
proof -
  have full: "user_cart ex_db_mixed 1 \<noteq> []"
    by (simp add: user_cart_def ex_defs)
  have none: "user_cart ex_db_mixed 2 = []"
    by (simp add: user_cart_def ex_defs)
  have fullf: "user_cart ex_db_totals 3 \<noteq> []"
    by (simp add: user_cart_def ex_defs)
  have sum500: "fadd 0 500 = 500"
    by code_simp
  from validate_cart_items_partitions [of ex_db_mixed 1] full
  have "validate_cart_items ex_db_mixed 1 =
        Inr \<lparr>valid_items = rights (map (spec_line (session ex_db_mixed)) (user_cart ex_db_mixed 1)),
             invalid_items = lefts (map (spec_line (session ex_db_mixed)) (user_cart ex_db_mixed 1)),
             total_amount =
               foldl fadd 0 (map vi_item_total
                 (rights (map (spec_line (session ex_db_mixed)) (user_cart ex_db_mixed 1)))),
             item_count =
               sum_list (map (\<lambda>v. c_quantity (vi_cart_item v))
                 (rights (map (spec_line (session ex_db_mixed)) (user_cart ex_db_mixed 1))))\<rparr>"
    by blast
  then have a: "validate_cart_items ex_db_mixed 1 =
     Inr \<lparr>valid_items =
            [\<lparr>vi_cart_item = \<lparr>c_id = 1, c_user_id = 1, c_product_id = 7, c_quantity = 2\<rparr>,
              vi_product = ex_saree, vi_item_total = 500\<rparr>],
          invalid_items =
            [\<lparr>ii_cart_item_id = 2, ii_product_name = None, ii_available_stock = None,
              ii_requested_quantity = None, ii_reason = ''Product not found''\<rparr>,
             \<lparr>ii_cart_item_id = 3, ii_product_name = Some ''Evening Gown'',
              ii_available_stock = Some 1, ii_requested_quantity = Some 4,
              ii_reason = ''Insufficient stock''\<rparr>],
          total_amount = 500, item_count = 2\<rparr>"
    by (simp add: ex_mixed_lines sum500)
  from validate_cart_items_partitions [of ex_db_mixed 2] none
  obtain m where "validate_cart_items ex_db_mixed 2 = Inl (CheckoutError m)"
    by blast
  then have b: "validate_cart_items ex_db_mixed 2 = Inl (CheckoutError ''Cart is empty'')"
    by (simp add: validate_cart_items_def Let_def split: if_splits)
  have rs: "rights (map Inr xs) = xs" "lefts (map Inr xs) = ([] :: invalid_item list)"
    for xs :: "valid_item list"
    by (induction xs) simp_all
  have cnt: "sum_list (map (\<lambda>v. c_quantity (vi_cart_item v)) (valid_items ex_cart_float)) = 4"
    by (simp add: ex_defs)
  from validate_cart_items_partitions [of ex_db_totals 3] fullf
  have "validate_cart_items ex_db_totals 3 =
        Inr \<lparr>valid_items = rights (map (spec_line (session ex_db_totals)) (user_cart ex_db_totals 3)),
             invalid_items = lefts (map (spec_line (session ex_db_totals)) (user_cart ex_db_totals 3)),
             total_amount =
               foldl fadd 0 (map vi_item_total
                 (rights (map (spec_line (session ex_db_totals)) (user_cart ex_db_totals 3)))),
             item_count =
               sum_list (map (\<lambda>v. c_quantity (vi_cart_item v))
                 (rights (map (spec_line (session ex_db_totals)) (user_cart ex_db_totals 3))))\<rparr>"
    by blast
  then have c: "validate_cart_items ex_db_totals 3 =
     Inr \<lparr>valid_items = valid_items ex_cart_float, invalid_items = [],
          total_amount = 8796093022208001 / 8796093022208, item_count = 4\<rparr>"
    by (simp add: ex_float_lines rs ex_float_sum cnt)
  from full a none b fullf c show ?thesis by (intro conjI)
qed

subsection \<open>Order creation and payment\<close>




lemma payment_outcome_status:
  "payment_outcome e = (s, m, t) \<Longrightarrow> s = SUCCESS \<or> s = FAILED"
  by (auto simp add: payment_outcome_def Let_def split: if_splits)

lemma gateway_status:
  "gateway_process_payment e a pm cd = Inr (s, m, t) \<Longrightarrow> s = SUCCESS \<or> s = FAILED"
  by (auto simp add: gateway_process_payment_def split: if_splits sum.splits prod.splits
      dest: payment_outcome_status)










subsection \<open>Cancellation\<close>

text \<open>Claim C7. \<open>cancel_order\<close> succeeds only on an order whose status is
  \<open>processing\<close> or \<open>confirmed\<close>. On an order of the caller in status \<open>shipped\<close>,
  \<open>delivered\<close> or \<open>cancelled\<close> (and in any status other than the two) it raises the
  checkout error "Cannot cancel order in current status" and leaves the session and the
  persisted rows (order status, payment status, stock) as they were.\<close>

theorem cancel_order_only_from_processing_or_confirmed:
  "(\<forall>r d1. cancel_order e d oid uid = (Inr r, d1) \<longrightarrow>
      (\<exists>ord. get_order_details d oid uid = Some ord \<and>
             o_order_status ord \<in> {''processing'', ''confirmed''})) \<and>
   (\<forall>ord. get_order_details d oid uid = Some ord \<and>
          o_order_status ord \<in> {''shipped'', ''delivered'', ''cancelled''} \<longrightarrow>
      cancel_order e d oid uid =
        (Inl (CheckoutError ''Cannot cancel order in current status''), d)) \<and>
   (\<forall>ord. get_order_details d oid uid = Some ord \<and>
          o_order_status ord \<notin> {''processing'', ''confirmed''} \<longrightarrow>
      cancel_order e d oid uid =
        (Inl (CheckoutError ''Cannot cancel order in current status''), d))"
  by (auto simp add: cancel_order_def Let_def split: option.splits if_splits)

lemma shipped_order_found:
  "get_order_details ex_db_orders 2 1 =
     Some (ex_order\<lparr>o_id := 2, o_order_number := ''LUX-20240110-AAAA0002'',
                     o_order_status := ''shipped''\<rparr>)"
  by (simp add: get_order_details_def ex_defs)

lemma confirmed_order_cancels:
  "\<exists>r d1. cancel_order ex_env ex_db_orders 1 1 = (Inr r, d1)"
  by (simp add: cancel_order_def get_order_details_def Let_def ex_defs)

text \<open>The shipped order of the example cannot be cancelled and nothing changes; the
  confirmed one can, and it is found in status \<open>confirmed\<close>.\<close>

theorem cancel_order_only_from_processing_or_confirmed_witness:
  "cancel_order ex_env ex_db_orders 2 1 =
     (Inl (CheckoutError ''Cannot cancel order in current status''), ex_db_orders) \<and>
   (\<exists>r d1 ord. cancel_order ex_env ex_db_orders 1 1 = (Inr r, d1) \<and>
      get_order_details ex_db_orders 1 1 = Some ord \<and>
      o_order_status ord \<in> {''processing'', ''confirmed''})"
proof -
  have shipped: "o_order_status (ex_order\<lparr>o_id := 2,
      o_order_number := ''LUX-20240110-AAAA0002'', o_order_status := ''shipped''\<rparr>)
        \<in> {''shipped'', ''delivered'', ''cancelled''}"
    by simp
  from cancel_order_only_from_processing_or_confirmed [of ex_env ex_db_orders 2 1]
    shipped_order_found shipped
  have a: "cancel_order ex_env ex_db_orders 2 1 =
     (Inl (CheckoutError ''Cannot cancel order in current status''), ex_db_orders)"
    by blast
  from confirmed_order_cancels obtain r d1 where
    run: "cancel_order ex_env ex_db_orders 1 1 = (Inr r, d1)" by blast
  from cancel_order_only_from_processing_or_confirmed [of ex_env ex_db_orders 1 1] run
  obtain ord where "get_order_details ex_db_orders 1 1 = Some ord"
    "o_order_status ord \<in> {''processing'', ''confirmed''}"
    by blast
  with a run show ?thesis by blast
qed

lemma find_product_None:
  "find (\<lambda>p. p_id p = k) ps = None \<longleftrightarrow> (\<forall>p \<in> set ps. p_id p \<noteq> k)"
  by (induction ps) auto

lemma find_product_Some: "find (\<lambda>p. p_id p = k) ps = Some q \<Longrightarrow> p_id q = k"
  by (induction ps) (auto split: if_splits)

lemma restore_stock_frame:
  "orders (restore_stock st items) = orders st \<and>
   carts (restore_stock st items) = carts st \<and>
   users (restore_stock st items) = users st \<and>
   order_items (restore_stock st items) = order_items st"
  by (induction items arbitrary: st) (simp_all split: option.splits)

lemma restore_stock_products:
  "products (restore_stock st items) =
     map (\<lambda>p. p\<lparr>p_stock := p_stock p + restored_quantity items (p_id p)\<rparr>) (products st)"
proof (induction items arbitrary: st)
  case Nil
  show ?case by (simp add: restored_quantity_def)
next
  case (Cons item items)
  show ?case
  proof (cases "find (\<lambda>p. p_id p = oi_product_id item) (products st)")
    case None
    then have "\<forall>p \<in> set (products st). p_id p \<noteq> oi_product_id item"
      by (simp add: find_product_None)
    then have "map (\<lambda>p. p\<lparr>p_stock := p_stock p + restored_quantity (item # items) (p_id p)\<rparr>)
                 (products st)
             = map (\<lambda>p. p\<lparr>p_stock := p_stock p + restored_quantity items (p_id p)\<rparr>)
                 (products st)"
      by (intro map_cong) (auto simp add: restored_quantity_def)
    with None show ?thesis by (simp add: Cons.IH)
  next
    case (Some q)
    then have q: "p_id q = oi_product_id item" by (rule find_product_Some)
    show ?thesis
      using Some q by (simp add: Cons.IH o_def restored_quantity_def)
  qed
qed

lemma find_put_order_owner:
  assumes "find (\<lambda>row. o_id row = k \<and> o_user_id row = u) os = Some ord"
    and "o_id ord1 = k" and "o_user_id ord1 = u"
  shows "find (\<lambda>row. o_id row = k \<and> o_user_id row = u)
           (map (\<lambda>row. if o_id row = k then ord1 else row) os) = Some ord1"
  using assms by (induction os) (auto split: if_splits)

lemma get_order_details_key:
  "get_order_details d oid uid = Some ord \<Longrightarrow> o_id ord = oid \<and> o_user_id ord = uid"
  by (auto simp add: get_order_details_def dest: find_Some_iff [THEN iffD1])

lemma cancel_order_found:
  "cancel_order e d oid uid = (Inr r, d1) \<Longrightarrow>
     \<exists>ord. get_order_details d oid uid = Some ord \<and>
           o_order_status ord \<in> {''processing'', ''confirmed''}"
  by (auto simp add: cancel_order_def Let_def split: option.splits if_splits)

text \<open>What a permitted cancellation returns and writes.\<close>

lemma cancel_order_run:
  assumes "get_order_details d oid uid = Some ord"
    and "o_order_status ord \<in> {''processing'', ''confirmed''}"
  shows "cancel_order e d oid uid =
     (Inr \<lparr>cr_success = True, cr_order_id = o_id ord, cr_order_number = o_order_number ord,
           cr_refund_result =
             (if o_payment_status ord = ''success'' then
                Some \<lparr>rr_status = status_value
                         (fst (refund_payment e (o_transaction_id ord) (o_final_amount ord))),
                      rr_message =
                         snd (refund_payment e (o_transaction_id ord) (o_final_amount ord)),
                      rr_amount = o_final_amount ord\<rparr>
              else None)\<rparr>,
      commit (d\<lparr>session :=
        restore_stock
          (put_order
             (ord\<lparr>o_order_status := ''cancelled'',
                   o_payment_status :=
                     (if o_payment_status ord = ''success'' then ''refunded''
                      else ''cancelled'')\<rparr>)
             (session d))
          (filter (\<lambda>i. oi_order_id i = oid) (order_items (session d)))\<rparr>))"
proof -
  have oi: "order_items (put_order x (session d)) = order_items (session d)" for x
    by (simp add: put_order_def)
  from assms(2) have ok: "\<not> o_order_status ord \<notin> set [''processing'', ''confirmed'']"
    by simp
  show ?thesis
    unfolding cancel_order_def assms(1) option.case if_not_P [OF ok] Let_def oi
    by (simp add: split_beta)
qed

text \<open>Every cancellation that succeeds records, when the order's payment status was
  \<open>success\<close>, the gateway's answer to a refund of the order's stored transaction id
  and final amount; it leaves the order \<open>cancelled\<close>; it raises the stock of every
  product by the quantities the order's items hold of it; and it commits.\<close>

lemma cancel_order_effects:
  assumes run: "cancel_order e d oid uid = (Inr r, d1)"
  shows "\<exists>ord. get_order_details d oid uid = Some ord \<and>
        cr_refund_result r =
          (if o_payment_status ord = ''success'' then
             Some \<lparr>rr_status = status_value
                      (fst (refund_payment e (o_transaction_id ord) (o_final_amount ord))),
                   rr_message =
                      snd (refund_payment e (o_transaction_id ord) (o_final_amount ord)),
                   rr_amount = o_final_amount ord\<rparr>
           else None) \<and>
        get_order_details d1 oid uid =
          Some (ord\<lparr>o_order_status := ''cancelled'',
                     o_payment_status :=
                       (if o_payment_status ord = ''success'' then ''refunded''
                        else ''cancelled'')\<rparr>) \<and>
        products (session d1) =
          map (\<lambda>p. p\<lparr>p_stock := p_stock p +
                  restored_quantity
                    (filter (\<lambda>i. oi_order_id i = oid) (order_items (session d))) (p_id p)\<rparr>)
            (products (session d)) \<and>
        persisted d1 = session d1"
proof -
  define its where "its = filter (\<lambda>i. oi_order_id i = oid) (order_items (session d))"
  from cancel_order_found [OF run] obtain ord where
    ord: "get_order_details d oid uid = Some ord" and
    st: "o_order_status ord \<in> {''processing'', ''confirmed''}"
    by blast
  define ord1 where "ord1 = ord\<lparr>o_order_status := ''cancelled'',
                     o_payment_status :=
                       (if o_payment_status ord = ''success'' then ''refunded''
                        else ''cancelled'')\<rparr>"
  from run cancel_order_run [OF ord st, of e]
  have res: "cr_refund_result r =
      (if o_payment_status ord = ''success'' then
         Some \<lparr>rr_status = status_value
                  (fst (refund_payment e (o_transaction_id ord) (o_final_amount ord))),
               rr_message =
                  snd (refund_payment e (o_transaction_id ord) (o_final_amount ord)),
               rr_amount = o_final_amount ord\<rparr>
       else None)"
    and d1: "d1 = commit (d\<lparr>session := restore_stock (put_order ord1 (session d)) its\<rparr>)"
    by (auto simp add: ord1_def its_def)
  from get_order_details_key [OF ord]
  have key1: "o_id ord1 = oid" "o_user_id ord1 = uid"
    by (simp_all add: ord1_def)
  have "get_order_details d1 oid uid = Some ord1"
    using find_put_order_owner [of oid uid "orders (session d)" ord ord1] ord key1
    by (simp add: d1 get_order_details_def commit_def restore_stock_frame put_order_def)
  then have a: "get_order_details d1 oid uid =
          Some (ord\<lparr>o_order_status := ''cancelled'',
                     o_payment_status :=
                       (if o_payment_status ord = ''success'' then ''refunded''
                        else ''cancelled'')\<rparr>)"
    unfolding ord1_def .
  have "products (session d1) =
          map (\<lambda>p. p\<lparr>p_stock := p_stock p + restored_quantity its (p_id p)\<rparr>)
            (products (session d))"
    by (simp add: d1 commit_def restore_stock_products put_order_def)
  then have b: "products (session d1) =
          map (\<lambda>p. p\<lparr>p_stock := p_stock p +
                  restored_quantity
                    (filter (\<lambda>i. oi_order_id i = oid) (order_items (session d))) (p_id p)\<rparr>)
            (products (session d))"
    unfolding its_def .
  have c: "persisted d1 = session d1"
    by (simp add: d1 commit_def)
  show ?thesis
    by (intro exI [of _ ord] conjI ord res a b c)
qed


subsection \<open>The gateway's checks\<close>

lemma new_transaction_id_nonempty: "new_transaction_id e \<noteq> []"
  by (simp add: new_transaction_id_def)

lemma payment_outcome_transaction_id:
  "\<exists>s m. payment_outcome e = (s, m, Some (new_transaction_id e)) \<and>
         (s = SUCCESS \<longleftrightarrow> random_value e < success_rate) \<and> (s = SUCCESS \<or> s = FAILED)"
  by (simp add: payment_outcome_def Let_def)

text \<open>Claim C9, as stated, fails. A positive amount with the supported method
  \<open>credit_card\<close> and card details that lack a required field is answered \<open>FAILED\<close>
  with no transaction id.\<close>

theorem gateway_card_rejection_counterexample:
  "(0::rat) < 100 \<and>
   ''credit_card'' \<in> set get_supported_payment_methods \<and>
   gateway_process_payment ex_env 100 ''credit_card''
       (Some ex_card_number_only) =
     Inr (FAILED, ''Invalid card details: Missing required field: expiry_month'', None)"
  by (simp add: gateway_process_payment_def validate_card_details_def required_fields_def
      get_supported_payment_methods_def card_methods_def given_def ex_defs)

text \<open>Claim C9, amended. The gateway's \<open>process_payment\<close> returns \<open>FAILED\<close> with no
  transaction id for every amount that is not positive, for every unsupported method,
  and for a card method with card details given that the card check rejects; when the
  card check itself raises, so does the gateway. On every other input (a positive amount,
  a supported method, and no card check or one that passes) it returns the transaction id
  it generated, with \<open>SUCCESS\<close> for a draw below the success rate (the double
  \<open>0.85\<close>) and \<open>FAILED\<close> for every other draw, the synthetic decline and the timeout
  included.\<close>

theorem gateway_process_payment_transaction_id:
  "(amount \<le> 0 \<longrightarrow>
      gateway_process_payment e amount pm cd = Inr (FAILED, ''Invalid payment amount'', None)) \<and>
   (0 < amount \<and> pm \<notin> set get_supported_payment_methods \<longrightarrow>
      gateway_process_payment e amount pm cd =
        Inr (FAILED, ''Unsupported payment method: '' @ pm, None)) \<and>
   (0 < amount \<and> pm \<in> set get_supported_payment_methods \<and>
    pm \<in> set card_methods \<and> given cd \<longrightarrow>
      (\<forall>m. validate_card_details e (the cd) = Inr (False, m) \<longrightarrow>
         gateway_process_payment e amount pm cd =
           Inr (FAILED, ''Invalid card details: '' @ m, None)) \<and>
      (\<forall>err. validate_card_details e (the cd) = Inl err \<longrightarrow>
         gateway_process_payment e amount pm cd = Inl err)) \<and>
   (0 < amount \<and> pm \<in> set get_supported_payment_methods \<and>
    (pm \<in> set card_methods \<and> given cd \<longrightarrow>
       (\<exists>m. validate_card_details e (the cd) = Inr (True, m))) \<longrightarrow>
      (\<exists>s m. gateway_process_payment e amount pm cd =
                Inr (s, m, Some (new_transaction_id e)) \<and>
             (s = SUCCESS \<longleftrightarrow> random_value e < success_rate) \<and>
             (s = SUCCESS \<or> s = FAILED)))"
proof (intro conjI impI allI)
  assume "amount \<le> 0"
  then show "gateway_process_payment e amount pm cd =
      Inr (FAILED, ''Invalid payment amount'', None)"
    by (simp add: gateway_process_payment_def)
next
  assume "0 < amount \<and> pm \<notin> set get_supported_payment_methods"
  then show "gateway_process_payment e amount pm cd =
      Inr (FAILED, ''Unsupported payment method: '' @ pm, None)"
    by (simp add: gateway_process_payment_def)
next
  fix m
  assume "0 < amount \<and> pm \<in> set get_supported_payment_methods \<and>
    pm \<in> set card_methods \<and> given cd"
    and "validate_card_details e (the cd) = Inr (False, m)"
  then show "gateway_process_payment e amount pm cd =
      Inr (FAILED, ''Invalid card details: '' @ m, None)"
    by (simp add: gateway_process_payment_def)
next
  fix err
  assume "0 < amount \<and> pm \<in> set get_supported_payment_methods \<and>
    pm \<in> set card_methods \<and> given cd"
    and "validate_card_details e (the cd) = Inl err"
  then show "gateway_process_payment e amount pm cd = Inl err"
    by (simp add: gateway_process_payment_def)
next
  assume h: "0 < amount \<and> pm \<in> set get_supported_payment_methods \<and>
    (pm \<in> set card_methods \<and> given cd \<longrightarrow>
       (\<exists>m. validate_card_details e (the cd) = Inr (True, m)))"
  then have "gateway_process_payment e amount pm cd = Inr (payment_outcome e)"
    by (auto simp add: gateway_process_payment_def)
  with payment_outcome_transaction_id [of e]
  show "\<exists>s m. gateway_process_payment e amount pm cd =
                Inr (s, m, Some (new_transaction_id e)) \<and>
             (s = SUCCESS \<longleftrightarrow> random_value e < success_rate) \<and>
             (s = SUCCESS \<or> s = FAILED)"
    by simp
qed

lemma ex_card_valid: "validate_card_details ex_env ex_card = Inr (True, ''Card details valid'')"
  by code_simp

lemma ex_card_number_only_rejected:
  "validate_card_details ex_env ex_card_number_only =
     Inr (False, ''Missing required field: expiry_month'')"
  by code_simp

lemma ex_card_null_month_raises:
  "validate_card_details ex_env ex_card_null_month =
     Inl (TypeError
       (''int() argument must be a string, a bytes-like object or a real number, not ''
          @ [CHR 0x27] @ ''NoneType'' @ [CHR 0x27]))"
  by code_simp

text \<open>One input for each case of the amended claim: an amount of zero, the method
  \<open>cash\<close>, a card with missing fields, a card whose expiry month is null, a declined
  payment by \<open>upi\<close> and an accepted payment by a valid card. The last two carry the
  generated transaction id.\<close>

theorem gateway_process_payment_transaction_id_witness:
  "gateway_process_payment ex_env 0 ''upi'' None =
     Inr (FAILED, ''Invalid payment amount'', None) \<and>
   gateway_process_payment ex_env 100 ''cash'' None =
     Inr (FAILED, ''Unsupported payment method: cash'', None) \<and>
   gateway_process_payment ex_env 100 ''credit_card'' (Some ex_card_number_only) =
     Inr (FAILED, ''Invalid card details: Missing required field: expiry_month'', None) \<and>
   isl (gateway_process_payment ex_env 100 ''debit_card'' (Some ex_card_null_month)) \<and>
   (\<exists>m. gateway_process_payment ex_env_declined 100 ''upi'' None =
          Inr (FAILED, m, Some ''TXN-20240115-4E5F6A7B'')) \<and>
   (\<exists>m. gateway_process_payment ex_env 100 ''credit_card'' (Some ex_card) =
          Inr (SUCCESS, m, Some ''TXN-20240115-4E5F6A7B''))"
proof -
  have sup: "''upi'' \<in> set get_supported_payment_methods"
    "''credit_card'' \<in> set get_supported_payment_methods"
    "''debit_card'' \<in> set get_supported_payment_methods"
    "''cash'' \<notin> set get_supported_payment_methods"
    by (simp_all add: get_supported_payment_methods_def)
  have card: "''credit_card'' \<in> set card_methods" "''debit_card'' \<in> set card_methods"
    "''upi'' \<notin> set card_methods"
    by (simp_all add: card_methods_def)
  have giv: "given (Some ex_card_number_only)" "given (Some ex_card_null_month)"
    "given (Some ex_card)"
    by (simp_all add: given_def ex_defs)
  have tid: "new_transaction_id ex_env = ''TXN-20240115-4E5F6A7B''"
    "new_transaction_id ex_env_declined = ''TXN-20240115-4E5F6A7B''"
    by (simp_all add: new_transaction_id_def ex_defs)
  have draw: "random_value ex_env < success_rate"
    "\<not> random_value ex_env_declined < success_rate"
    by code_simp+
  have a: "gateway_process_payment ex_env 0 ''upi'' None =
     Inr (FAILED, ''Invalid payment amount'', None)"
    using gateway_process_payment_transaction_id [where amount = 0 and e = ex_env and pm = "''upi''" and cd = None] by simp
  have b: "gateway_process_payment ex_env 100 ''cash'' None =
     Inr (FAILED, ''Unsupported payment method: cash'', None)"
    using gateway_process_payment_transaction_id [where amount = 100 and e = ex_env and pm = "''cash''" and cd = None] sup
    by simp
  have c: "gateway_process_payment ex_env 100 ''credit_card'' (Some ex_card_number_only) =
     Inr (FAILED, ''Invalid card details: Missing required field: expiry_month'', None)"
    using gateway_process_payment_transaction_id
      [where amount = 100 and e = ex_env and pm = "''credit_card''"
        and cd = "Some ex_card_number_only"]
      sup card giv ex_card_number_only_rejected
    by simp
  have d: "isl (gateway_process_payment ex_env 100 ''debit_card'' (Some ex_card_null_month))"
    using gateway_process_payment_transaction_id
      [where amount = 100 and e = ex_env and pm = "''debit_card''"
        and cd = "Some ex_card_null_month"]
      sup card giv ex_card_null_month_raises
    by simp
  have e: "\<exists>m. gateway_process_payment ex_env_declined 100 ''upi'' None =
          Inr (FAILED, m, Some ''TXN-20240115-4E5F6A7B'')"
    using gateway_process_payment_transaction_id
      [where amount = 100 and e = ex_env_declined and pm = "''upi''" and cd = None]
      sup card draw tid
    by auto
  have f: "\<exists>m. gateway_process_payment ex_env 100 ''credit_card'' (Some ex_card) =
          Inr (SUCCESS, m, Some ''TXN-20240115-4E5F6A7B'')"
    using gateway_process_payment_transaction_id
      [where amount = 100 and e = ex_env and pm = "''credit_card''" and cd = "Some ex_card"]
      sup card giv draw tid ex_card_valid
    by auto
  from a b c d e f show ?thesis by (intro conjI)
qed

text \<open>Claim C10. For a card method and a positive amount, the gateway's
  \<open>process_payment\<close> called with no card details goes straight to the outcome draw: its
  answer is the drawn outcome, which no card check enters, and for a draw below the
  success rate (the double \<open>0.85\<close>) it is \<open>SUCCESS\<close> with a transaction id. The checkout service's \<open>process_payment\<close>,
  called with a card method and no card details, raises before it calls the gateway and
  writes nothing.\<close>

theorem gateway_accepts_card_method_without_details:
  "(pm \<in> set card_methods \<and> 0 < amount \<longrightarrow>
      gateway_process_payment e amount pm None = Inr (payment_outcome e)) \<and>
   (pm \<in> set card_methods \<and> 0 < amount \<and> random_value e < success_rate \<longrightarrow>
      gateway_process_payment e amount pm None =
        Inr (SUCCESS, ''Payment successful'', Some (new_transaction_id e))) \<and>
   (pm \<in> set card_methods \<longrightarrow>
      process_payment e d order pm None =
        (Inl (CheckoutError
           ''Payment processing failed: Card details required for card payments''), d))"
  by (auto simp add: gateway_process_payment_def payment_outcome_def process_payment_def
      process_payment_try_def card_methods_def get_supported_payment_methods_def given_def
      Let_def)

text \<open>A credit card payment of 100 with no card details: the gateway answers
  \<open>SUCCESS\<close>, the checkout service refuses.\<close>

theorem gateway_accepts_card_method_without_details_witness:
  "''credit_card'' \<in> set card_methods \<and> (0::rat) < 100 \<and>
   random_value ex_env < success_rate \<and>
   gateway_process_payment ex_env 100 ''credit_card'' None =
     Inr (SUCCESS, ''Payment successful'', Some ''TXN-20240115-4E5F6A7B'') \<and>
   process_payment ex_env ex_db_orders ex_order ''credit_card'' None =
     (Inl (CheckoutError
        ''Payment processing failed: Card details required for card payments''),
      ex_db_orders)"
proof -
  have card: "''credit_card'' \<in> set card_methods"
    by (simp add: card_methods_def)
  have draw: "random_value ex_env < success_rate"
    by code_simp
  have tid: "new_transaction_id ex_env = ''TXN-20240115-4E5F6A7B''"
    by (simp add: new_transaction_id_def ex_defs)
  have pos: "(0::rat) < 100" by simp
  from gateway_accepts_card_method_without_details
    [where pm = "''credit_card''" and amount = 100 and e = ex_env and d = ex_db_orders
      and order = ex_order] card draw pos
  have g: "gateway_process_payment ex_env 100 ''credit_card'' None =
        Inr (SUCCESS, ''Payment successful'', Some (new_transaction_id ex_env))"
    and p: "process_payment ex_env ex_db_orders ex_order ''credit_card'' None =
        (Inl (CheckoutError
           ''Payment processing failed: Card details required for card payments''),
         ex_db_orders)"
    by blast+
  from g have g': "gateway_process_payment ex_env 100 ''credit_card'' None =
     Inr (SUCCESS, ''Payment successful'', Some ''TXN-20240115-4E5F6A7B'')"
    unfolding tid .
  from card pos draw g' p show ?thesis by (intro conjI)
qed

subsection \<open>Two defects of the checkout flow\<close>

text \<open>An exception of the steps before \<open>create_order\<close> (an empty cart, a cart with
  no valid line) does leave the store as it was: nothing has been written when it is
  raised.\<close>

lemma checkout_rejected_before_order:
  assumes "isl (validate_cart_items d (u_id user)) \<or>
           (\<exists>cv. validate_cart_items d (u_id user) = Inr cv \<and> valid_items cv = [])"
  shows "\<exists>m t. complete_checkout e d user sa ba pm cd notes = (Failure m t, rollback d)"
proof -
  from assms have "\<exists>err. complete_checkout_try e d user sa ba pm cd notes = (Inl err, d)"
    by (auto simp add: complete_checkout_try_def isl_def)
  then obtain err where "complete_checkout_try e d user sa ba pm cd notes = (Inl err, d)"
    by blast
  then show ?thesis
    by (cases err) (simp_all add: complete_checkout_def)
qed

text \<open>Claim C1 does not hold of the code. \<open>create_order\<close> commits, and the payment step
  comes after it: when \<open>process_payment\<close> raises (here a credit card payment with no
  card details), \<open>complete_checkout\<close> rolls back and returns the failure result of type
  \<open>checkout_error\<close>, but the order row and the stock decrement are already persisted.
  In the example the persisted store had no order and a stock of 5; after the failed call
  it has an order, in \<open>processing\<close>/\<open>pending\<close>, and a stock of 3.\<close>

theorem payment_exception_leaves_order_and_stock:
  "(case complete_checkout ex_env ex_db ex_user ''12 Temple Road'' ''12 Temple Road''
           ''credit_card'' None None of
      (Failure m t, d1) \<Rightarrow>
        m = ''Payment processing failed: Card details required for card payments'' \<and>
        t = ''checkout_error'' \<and>
        orders (persisted ex_db) = [] \<and>
        map p_stock (products (persisted ex_db)) = [5] \<and>
        map o_id (orders (persisted d1)) = [1] \<and>
        map o_order_status (orders (persisted d1)) = [''processing''] \<and>
        map o_payment_status (orders (persisted d1)) = [''pending''] \<and>
        map p_stock (products (persisted d1)) = [3] \<and>
        session d1 = persisted d1
    | (Completed r, d1) \<Rightarrow> False)"
  by code_simp

text \<open>Claim C2 does not hold of the code. A successful payment leaves the order with
  payment status \<open>paid\<close>, and \<open>cancel_order\<close> refunds only an order whose payment
  status is \<open>success\<close>. In the example \<open>process_payment\<close> is called for the pending
  order 4 by \<open>upi\<close> with a draw of 0.5: it returns \<open>SUCCESS\<close> and leaves the order
  \<open>confirmed\<close>/\<open>paid\<close> with the transaction id stored. Cancelling that order then
  returns no refund result, marks the payment \<open>cancelled\<close> and restores the stock (the
  saree from 2 to 4): the gateway's refund is never called.\<close>

theorem paid_order_cancelled_without_refund:
  "(case process_payment ex_env ex_db_orders ex_pending_order ''upi'' None of
      (Inr pr, d1) \<Rightarrow>
        pr_success pr \<and>
        pr_status pr = ''success'' \<and>
        pr_transaction_id pr = Some ''TXN-20240115-4E5F6A7B'' \<and>
        map (\<lambda>row. (o_order_status row, o_payment_status row, o_transaction_id row))
            (filter (\<lambda>row. o_id row = 4) (orders (persisted d1)))
          = [(''confirmed'', ''paid'', Some ''TXN-20240115-4E5F6A7B'')] \<and>
        (case cancel_order ex_env d1 4 1 of
           (Inr c, d2) \<Rightarrow>
             cr_refund_result c = None \<and>
             map (\<lambda>row. (o_order_status row, o_payment_status row))
                 (filter (\<lambda>row. o_id row = 4) (orders (persisted d2)))
               = [(''cancelled'', ''cancelled'')] \<and>
             map p_stock (products (persisted d2)) = [4, 1]
         | (Inl err, d2) \<Rightarrow> False)
    | (Inl err, d1) \<Rightarrow> False)"
  by code_simp

text \<open>The same holds of every order: whatever the gateway answers, \<open>process_payment\<close>
  never writes the payment status \<open>success\<close>, and a cancellation of an order whose
  payment status is not \<open>success\<close> returns no refund result.\<close>

lemma process_payment_never_writes_success:
  assumes "process_payment e d order pm cd = (Inr pr, d1)"
    and "row \<in> set (orders (session d1))"
    and "\<forall>old \<in> set (orders (session d)). o_payment_status old \<noteq> ''success''"
  shows "o_payment_status row \<noteq> ''success''"
proof -
  from assms(1) have run: "process_payment_try e d order pm cd = (Inr pr, d1)"
    by (simp add: process_payment_def split: prod.splits sum.splits)
  then obtain ord1 where
    d1: "d1 = commit (d\<lparr>session := put_order ord1 (session d)\<rparr>)" and
    ps: "o_payment_status ord1 = ''paid'' \<or> o_payment_status ord1 = ''failed''"
    by (auto simp add: process_payment_try_def Let_def
        split: if_splits sum.splits prod.splits dest!: gateway_status)
  from assms(2) have "row = ord1 \<or> row \<in> set (orders (session d))"
    by (auto simp add: d1 commit_def put_order_def split: if_splits)
  with ps assms(3) show ?thesis by auto
qed

lemma cancel_without_refund:
  assumes "cancel_order e d oid uid = (Inr r, d1)"
    and "get_order_details d oid uid = Some ord"
    and "o_payment_status ord \<noteq> ''success''"
  shows "cr_refund_result r = None"
  using cancel_order_effects [OF assms(1)] assms(2, 3) by auto

text \<open>A defect next to these two: a checkout whose payment succeeds does not return the
  completed result. The cart rows are deleted and the deletion committed before the
  result is built, and building it reads \<open>quantity\<close> of the expired cart objects; the
  read raises, the handler answers \<open>system_error\<close>, and the order stays \<open>confirmed\<close>
  and \<open>paid\<close> with the cart empty.\<close>

lemma paid_checkout_reports_system_error:
  "(case complete_checkout ex_env ex_db ex_user ''12 Temple Road'' ''12 Temple Road''
           ''upi'' None None of
      (Failure m t, d1) \<Rightarrow>
        t = ''system_error'' \<and>
        carts (persisted d1) = [] \<and>
        map (\<lambda>row. (o_order_status row, o_payment_status row, o_final_amount row))
            (orders (persisted d1)) = [(''confirmed'', ''paid'', 68894 / 100)]
    | (Completed r, d1) \<Rightarrow> False)"
  by code_simp

end
